theory Spec2Isabelle
  imports Main "HOL-Library.AList" "HOL-Library.Word"
begin

section \<open>JavaScript values\<close>

text \<open>
  The servers handle values produced by \<^verbatim>\<open>JSON.parse\<close>. A parsed value is a \<open>json\<close>;
  a JavaScript value that may also be \<^verbatim>\<open>undefined\<close> is a \<open>jsval\<close>, with \<open>None\<close> for
  \<^verbatim>\<open>undefined\<close>. Numbers are restricted to integers: the code does arithmetic only on
  timestamps and on \<^verbatim>\<open>expires_in\<close>. The properties of an object are an association
  list with distinct keys, in insertion order. Strings are byte strings (UTF-8); the
  code only concatenates and compares them.
\<close>

datatype json =
    JNull
  | JBool bool
  | JNum int
  | JStr string
  | JArr "json list"
  | JObj "(string \<times> json) list"

type_synonym jsval = "json option"

text \<open>The exceptions the handlers can meet: errors raised by the engine and
  \<^verbatim>\<open>new Error(message)\<close>.\<close>

datatype exn = TypeError | SyntaxError | Error string

text \<open>
  What the code takes from the platform and the model does not define: the JSON parser,
  the conversion of a string to a number, the message texts of engine errors and the
  SHA-256 digest.
\<close>

record engine =
  JSON_parse :: "string \<Rightarrow> json option"
  StringToNumber :: "string \<Rightarrow> int option"
  TypeError_message :: string
  SyntaxError_message :: string
  sha256 :: "string \<Rightarrow> 8 word list"

fun message :: "engine \<Rightarrow> exn \<Rightarrow> string" where
  "message eng TypeError = TypeError_message eng"
| "message eng SyntaxError = SyntaxError_message eng"
| "message eng (Error m) = m"

text \<open>Truthiness, as tested by \<^verbatim>\<open>!x\<close>, \<^verbatim>\<open>x || y\<close> and \<^verbatim>\<open>x ? a : b\<close>.\<close>

fun truthy :: "jsval \<Rightarrow> bool" where
  "truthy None = False"
| "truthy (Some JNull) = False"
| "truthy (Some (JBool b)) = b"
| "truthy (Some (JNum n)) = (n \<noteq> 0)"
| "truthy (Some (JStr s)) = (s \<noteq> [])"
| "truthy (Some (JArr xs)) = True"
| "truthy (Some (JObj kvs)) = True"

definition or_else :: "jsval \<Rightarrow> jsval \<Rightarrow> jsval" where
  "or_else a b = (if truthy a then a else b)"

text \<open>
  Property access \<^verbatim>\<open>v.k\<close> for the property names the servers read (none of them is a
  property of a string, a number, a boolean or an array): it throws a TypeError on
  \<^verbatim>\<open>undefined\<close> and \<^verbatim>\<open>null\<close>.
\<close>

fun field :: "json \<Rightarrow> string \<Rightarrow> jsval" where
  "field (JObj kvs) k = map_of kvs k"
| "field v k = None"

fun coercible :: "jsval \<Rightarrow> exn + json" where
  "coercible None = Inl TypeError"
| "coercible (Some JNull) = Inl TypeError"
| "coercible (Some v) = Inr v"

definition get :: "jsval \<Rightarrow> string \<Rightarrow> exn + jsval" where
  "get v k = (case coercible v of Inl e \<Rightarrow> Inl e | Inr j \<Rightarrow> Inr (field j k))"

text \<open>Optional chaining \<^verbatim>\<open>v?.k\<close>.\<close>

fun get_opt :: "jsval \<Rightarrow> string \<Rightarrow> jsval" where
  "get_opt None k = None"
| "get_opt (Some JNull) k = None"
| "get_opt (Some v) k = field v k"

text \<open>Strict equality \<^verbatim>\<open>a === b\<close> of two values that come from different places: two
  objects or arrays are never the same object.\<close>

fun strict_eq :: "jsval \<Rightarrow> jsval \<Rightarrow> bool" where
  "strict_eq (Some (JArr xs)) b = False"
| "strict_eq (Some (JObj kvs)) b = False"
| "strict_eq a b = (a = b)"

definition is_str :: "jsval \<Rightarrow> string \<Rightarrow> bool" where
  "is_str v s = (v = Some (JStr s))"

subsection \<open>Conversion to string, as in a template literal\<close>

definition digit_char :: "nat \<Rightarrow> char" where
  "digit_char d = char_of (48 + d)"

fun decimal :: "nat \<Rightarrow> string" where
  "decimal n = (if n < 10 then [digit_char n] else decimal (n div 10) @ [digit_char (n mod 10)])"

definition show_int :: "int \<Rightarrow> string" where
  "show_int i = (if i < 0 then CHR ''-'' # decimal (nat (- i)) else decimal (nat i))"

fun join_comma :: "string list \<Rightarrow> string" where
  "join_comma [] = []"
| "join_comma [s] = s"
| "join_comma (s # t # ss) = s @ '','' @ join_comma (t # ss)"

fun ToString :: "json \<Rightarrow> string" where
  "ToString JNull = ''null''"
| "ToString (JBool b) = (if b then ''true'' else ''false'')"
| "ToString (JNum n) = show_int n"
| "ToString (JStr s) = s"
| "ToString (JArr xs) = join_comma (map (\<lambda>x. if x = JNull then [] else ToString x) xs)"
| "ToString (JObj kvs) = ''[object Object]''"

fun template :: "jsval \<Rightarrow> string" where
  "template None = ''undefined''"
| "template (Some v) = ToString v"

text \<open>\<^verbatim>\<open>Number(v)\<close>, as applied by \<^verbatim>\<open>*\<close>; \<open>None\<close> is NaN.\<close>

fun ToNumber :: "engine \<Rightarrow> jsval \<Rightarrow> int option" where
  "ToNumber eng None = None"
| "ToNumber eng (Some JNull) = Some 0"
| "ToNumber eng (Some (JBool b)) = Some (if b then 1 else 0)"
| "ToNumber eng (Some (JNum n)) = Some n"
| "ToNumber eng (Some v) = StringToNumber eng (ToString v)"

subsection \<open>Object literals on the wire\<close>

text \<open>
  Every object the servers build is sent through \<^verbatim>\<open>JSON.stringify\<close> (or
  \<^verbatim>\<open>res.json\<close>), which leaves out a property whose value is \<^verbatim>\<open>undefined\<close>.
  \<open>object\<close> is the literal as it is sent.
\<close>

fun object :: "(string \<times> jsval) list \<Rightarrow> json" where
  "object fs = JObj (List.map_filter (\<lambda>(k, v). map_option (Pair k) v) fs)"

abbreviation str :: "string \<Rightarrow> jsval" where
  "str s \<equiv> Some (JStr s)"

abbreviation num :: "int \<Rightarrow> jsval" where
  "num n \<equiv> Some (JNum n)"

section \<open>Asynchronous functions and the outside world\<close>

text \<open>
  An \<^verbatim>\<open>async\<close> function is a computation that either is done or awaits an outbound
  HTTP request and goes on with its reply. A call to \<^verbatim>\<open>fetch\<close> is the only thing the
  servers await.
\<close>

datatype ('c, 'r, 'a) io = Done 'a | Await 'c "'r \<Rightarrow> ('c, 'r, 'a) io"

primrec bind :: "('c, 'r, 'a) io \<Rightarrow> ('a \<Rightarrow> ('c, 'r, 'b) io) \<Rightarrow> ('c, 'r, 'b) io" where
  "bind (Done a) f = f a"
| "bind (Await c k) f = Await c (\<lambda>r. bind (k r) f)"

text \<open>Running a computation against a world that answers every request: the requests
  made, in order, and the result.\<close>

primrec run :: "('c \<Rightarrow> 'r) \<Rightarrow> ('c, 'r, 'a) io \<Rightarrow> 'c list \<times> 'a" where
  "run world (Done a) = ([], a)"
| "run world (Await c k) = (c # fst (run world (k (world c))), snd (run world (k (world c))))"

datatype authorization = Basic string string | Bearer string

datatype payload = Form "(string \<times> string) list" | JsonText json

text \<open>\<^verbatim>\<open>fetch(url, {method: 'POST', headers: {Authorization, Content-Type}, body})\<close>\<close>

datatype fetch = Fetch "string option" authorization payload

text \<open>The promise of \<^verbatim>\<open>fetch\<close> is rejected with a message, or fulfilled with a status and
  a body text.\<close>

datatype response = Rejected string | Answered nat string

definition ok :: "nat \<Rightarrow> bool" where
  "ok status = (200 \<le> status \<and> status \<le> 299)"

text \<open>\<^verbatim>\<open>await response.json()\<close>\<close>

definition json_of :: "engine \<Rightarrow> string \<Rightarrow> exn + json" where
  "json_of eng text = (case JSON_parse eng text of None \<Rightarrow> Inl SyntaxError | Some v \<Rightarrow> Inr v)"

type_synonym 'a async = "(fetch, response, 'a) io"

text \<open>\<^verbatim>\<open>const a = await m; ...\<close> for an \<^verbatim>\<open>async\<close> function \<open>m\<close> that may throw: the
  exception goes on to the caller.\<close>

definition await_then :: "(exn + 'a) async \<Rightarrow> ('a \<Rightarrow> (exn + 'b) async) \<Rightarrow> (exn + 'b) async" where
  "await_then m f = bind m (\<lambda>r. case r of Inl e \<Rightarrow> Done (Inl e) | Inr a \<Rightarrow> f a)"

section \<open>JSON-RPC envelopes\<close>

definition jsonrpc_result :: "jsval \<Rightarrow> json \<Rightarrow> json" where
  "jsonrpc_result rid r =
     object [(''jsonrpc'', str ''2.0''), (''id'', rid), (''result'', Some r)]"

definition jsonrpc_error :: "jsval \<Rightarrow> int \<Rightarrow> string \<Rightarrow> json" where
  "jsonrpc_error rid code msg =
     object [(''jsonrpc'', str ''2.0''), (''id'', rid),
             (''error'', Some (object [(''code'', num code), (''message'', str msg)]))]"

text \<open>\<^verbatim>\<open>{jsonrpc: '2.0', id: null, error: {code: -32700, message: 'Parse error'}}\<close>\<close>

definition parse_error_response :: json where
  "parse_error_response = jsonrpc_error (Some JNull) (- 32700) ''Parse error''"

definition text_content :: "string \<Rightarrow> json" where
  "text_content t = JArr [object [(''type'', str ''text''), (''text'', str t)]]"

section \<open>The WebSocket server and the plain HTTP server\<close>

definition slack_url :: string where
  "slack_url = ''https://slack.com/api/chat.postMessage''"

definition initialize_result :: "string \<Rightarrow> json" where
  "initialize_result server_name =
     object [(''protocolVersion'', str ''2024-11-05''),
             (''capabilities'', Some (object [(''tools'', Some (object []))])),
             (''serverInfo'', Some (object [(''name'', str server_name), (''version'', str ''1.0.0'')]))]"

definition tools_list_result :: json where
  "tools_list_result =
     object [(''tools'', Some (JArr [object
       [(''name'', str ''slack_post_message''),
        (''description'', str ''Post a message to Slack''),
        (''inputSchema'', Some (object
          [(''type'', str ''object''),
           (''properties'', Some (object
              [(''channel_id'', Some (object [(''type'', str ''string'')])),
               (''text'', Some (object [(''type'', str ''string'')]))])),
           (''required'', Some (JArr [JStr ''channel_id'', JStr ''text'']))]))]]))]"

text \<open>
  The body of the branch \<^verbatim>\<open>name === 'slack_post_message'\<close>, the same text in
  \<^verbatim>\<open>server.js\<close> and in the plain server of \<^verbatim>\<open>server-http.js\<close>: a \<^verbatim>\<open>try\<close> around
  the call to Slack whose \<^verbatim>\<open>catch\<close> builds the error \<open>-32000\<close>.
\<close>

definition slack_post_message :: "engine \<Rightarrow> string \<Rightarrow> jsval \<Rightarrow> jsval \<Rightarrow> json async" where
  "slack_post_message eng bot_token rid args =
     (case coercible args of
        Inl e \<Rightarrow> Done (jsonrpc_error rid (- 32000) (message eng e))
      | Inr a \<Rightarrow>
          Await (Fetch (Some slack_url) (Bearer bot_token)
                   (JsonText (object [(''channel'', field a ''channel_id''), (''text'', field a ''text'')])))
            (\<lambda>slackResponse. Done
               (case slackResponse of
                  Rejected m \<Rightarrow> jsonrpc_error rid (- 32000) m
                | Answered st body \<Rightarrow>
                    (case json_of eng body of
                       Inl e \<Rightarrow> jsonrpc_error rid (- 32000) (message eng e)
                     | Inr slackData \<Rightarrow>
                         (case get (Some slackData) ''ok'' of
                            Inl e \<Rightarrow> jsonrpc_error rid (- 32000) (message eng e)
                          | Inr okv \<Rightarrow>
                              if truthy okv
                              then jsonrpc_result rid (object
                                     [(''content'', Some (text_content
                                        (''Sent: '' @ [CHR 0x22] @ template (field a ''text'') @ [CHR 0x22])))])
                              else jsonrpc_result rid (object
                                     [(''content'', Some (text_content
                                        (''Error: '' @ template (field slackData ''error'')))),
                                      (''isError'', Some (JBool True))]))))))"

text \<open>
  The dispatch inside the outer \<^verbatim>\<open>try\<close> of \<^verbatim>\<open>ws.on('message')\<close>, after
  \<^verbatim>\<open>JSON.parse\<close>: \<open>Inl\<close> is an exception that reaches the outer \<^verbatim>\<open>catch\<close>,
  \<open>Inr None\<close> a \<^verbatim>\<open>response\<close> left \<^verbatim>\<open>null\<close> (or the early \<^verbatim>\<open>return\<close> of the
  notification).
\<close>

definition ws_dispatch :: "engine \<Rightarrow> string \<Rightarrow> json \<Rightarrow> (exn + json option) async" where
  "ws_dispatch eng bot_token request =
     (case get (Some request) ''method'' of
        Inl e \<Rightarrow> Done (Inl e)
      | Inr method \<Rightarrow>
          if is_str method ''initialize''
          then Done (Inr (Some (jsonrpc_result (field request ''id'') (initialize_result ''slack-mcp''))))
          else if is_str method ''tools/list''
          then Done (Inr (Some (jsonrpc_result (field request ''id'') tools_list_result)))
          else if is_str method ''tools/call''
          then (case coercible (field request ''params'') of
                  Inl e \<Rightarrow> Done (Inl e)
                | Inr params \<Rightarrow>
                    if is_str (field params ''name'') ''slack_post_message''
                    then bind (slack_post_message eng bot_token (field request ''id'')
                                 (field params ''arguments''))
                           (\<lambda>response. Done (Inr (Some response)))
                    else Done (Inr None))
          else if is_str method ''notifications/initialized''
          then Done (Inr None)
          else Done (Inr None))"

text \<open>\<^verbatim>\<open>ws.on('message', async (data) => ...)\<close>: the messages sent with \<^verbatim>\<open>ws.send\<close>.\<close>

definition ws_on_message :: "engine \<Rightarrow> string \<Rightarrow> string \<Rightarrow> json list async" where
  "ws_on_message eng bot_token data =
     (case JSON_parse eng data of
        None \<Rightarrow> Done [parse_error_response]
      | Some request \<Rightarrow>
          bind (ws_dispatch eng bot_token request)
            (\<lambda>r. Done (case r of
                          Inl e \<Rightarrow> [parse_error_response]
                        | Inr None \<Rightarrow> []
                        | Inr (Some response) \<Rightarrow> [response])))"

subsection \<open>HTTP responses\<close>

text \<open>The HTML documents the servers send are named, not spelled out; \<open>ExpressError\<close>
  is the page of Express's default error handler.\<close>

datatype page = AuthenticationSuccessful | AuthenticationFailed string | ExpressError

datatype http_body = Json json | Text string | Html page | EventStream

datatype http_response = Http nat http_body

text \<open>
  The JSON body parser (\<^verbatim>\<open>express.json()\<close>, \<^verbatim>\<open>bodyParser.json()\<close>) installed with
  \<^verbatim>\<open>app.use\<close> in front of every route. It is library code: for a request that
  declares a JSON body it sets \<^verbatim>\<open>req.body\<close> to the parsed object or array (to
  \<^verbatim>\<open>{}\<close> for an empty body), and hands any other text to Express as an error with
  status 400; the servers install no error handler, so Express answers that error itself
  and the route handler does not run.
\<close>

definition express_json :: "engine \<Rightarrow> string \<Rightarrow> json option" where
  "express_json eng raw =
     (if raw = [] then Some (JObj [])
      else case JSON_parse eng raw of
             Some (JObj kvs) \<Rightarrow> Some (JObj kvs)
           | Some (JArr xs) \<Rightarrow> Some (JArr xs)
           | _ \<Rightarrow> None)"

definition method_not_found :: "jsval \<Rightarrow> http_response" where
  "method_not_found rid = Http 400 (Json (jsonrpc_error rid (- 32601) ''Method not found''))"

text \<open>The \<^verbatim>\<open>try\<close> block of \<^verbatim>\<open>app.post('/mcp')\<close> in the plain HTTP server.\<close>

definition http_dispatch :: "engine \<Rightarrow> string \<Rightarrow> json \<Rightarrow> (exn + http_response) async" where
  "http_dispatch eng bot_token request =
     (case get (Some request) ''method'' of
        Inl e \<Rightarrow> Done (Inl e)
      | Inr method \<Rightarrow>
          if is_str method ''initialize''
          then Done (Inr (Http 200 (Json
                 (jsonrpc_result (field request ''id'') (initialize_result ''slack-mcp-http'')))))
          else if is_str method ''tools/list''
          then Done (Inr (Http 200 (Json (jsonrpc_result (field request ''id'') tools_list_result))))
          else if is_str method ''tools/call''
          then (case coercible (field request ''params'') of
                  Inl e \<Rightarrow> Done (Inl e)
                | Inr params \<Rightarrow>
                    if is_str (field params ''name'') ''slack_post_message''
                    then bind (slack_post_message eng bot_token (field request ''id'')
                                 (field params ''arguments''))
                           (\<lambda>response. Done (Inr (Http 200 (Json response))))
                    else Done (Inr (method_not_found (field request ''id''))))
          else if is_str method ''notifications/initialized''
          then Done (Inr (Http 200 (Text ''OK'')))
          else Done (Inr (method_not_found (field request ''id''))))"

text \<open>\<^verbatim>\<open>app.post('/mcp', async (req, res) => ...)\<close> of the plain HTTP server, on
  \<^verbatim>\<open>req.body\<close>.\<close>

definition http_post_mcp :: "engine \<Rightarrow> string \<Rightarrow> json \<Rightarrow> http_response async" where
  "http_post_mcp eng bot_token request =
     bind (http_dispatch eng bot_token request)
       (\<lambda>r. Done (case r of
                     Inl e \<Rightarrow> Http 500 (Json parse_error_response)
                   | Inr res \<Rightarrow> res))"

text \<open>The same route behind the body parser, on the text of the request body.\<close>

definition http_request_mcp :: "engine \<Rightarrow> string \<Rightarrow> string \<Rightarrow> http_response async" where
  "http_request_mcp eng bot_token raw =
     (case express_json eng raw of
        None \<Rightarrow> Done (Http 400 (Html ExpressError))
      | Some request \<Rightarrow> http_post_mcp eng bot_token request)"

section \<open>The HTTP server with Duo token verification\<close>

text \<open>The variables read from \<^verbatim>\<open>process.env\<close>; \<open>None\<close> is an unset variable.
  \<open>DUO_ENABLED\<close> is \<^verbatim>\<open>process.env.DUO_ENABLED === 'true'\<close>, and \<open>DUO_REDIRECT_URI\<close>
  the constant computed from \<^verbatim>\<open>DUO_REDIRECT_URI\<close> or \<^verbatim>\<open>RENDER_EXTERNAL_HOSTNAME\<close>.\<close>

record env =
  SLACK_BOT_TOKEN :: "string option"
  DUO_ENABLED :: bool
  DUO_TOKEN_INTROSPECTION_ENDPOINT :: "string option"
  DUO_CLIENT_ID :: "string option"
  DUO_CLIENT_SECRET :: "string option"
  DUO_API_HOSTNAME :: "string option"
  DUO_REDIRECT_URI :: string

fun env_template :: "string option \<Rightarrow> string" where
  "env_template None = ''undefined''"
| "env_template (Some s) = s"

subsection \<open>Token introspection\<close>

text \<open>\<^verbatim>\<open>{ valid: false }\<close>, or \<^verbatim>\<open>{ valid: true, username, displayName, email, expiresAt }\<close>\<close>

datatype verification =
    Invalid
  | Valid jsval jsval jsval jsval

definition introspection :: "env \<Rightarrow> string \<Rightarrow> fetch" where
  "introspection env token =
     Fetch (DUO_TOKEN_INTROSPECTION_ENDPOINT env)
       (Basic (env_template (DUO_CLIENT_ID env)) (env_template (DUO_CLIENT_SECRET env)))
       (Form [(''token'', token)])"

text \<open>The \<^verbatim>\<open>try\<close> block of \<^verbatim>\<open>verifyDuoToken\<close>: \<open>Inl\<close> is what it throws.\<close>

definition verifyDuoToken_try :: "engine \<Rightarrow> env \<Rightarrow> string \<Rightarrow> (exn + verification) async" where
  "verifyDuoToken_try eng env token =
     Await (introspection env token)
       (\<lambda>response. Done
          (case response of
             Rejected m \<Rightarrow> Inl (Error m)
           | Answered st body \<Rightarrow>
               if \<not> ok st
               then Inl (Error (''Token introspection failed: '' @ decimal st))
               else (case json_of eng body of
                       Inl e \<Rightarrow> Inl e
                     | Inr data \<Rightarrow>
                         (case get (Some data) ''active'' of
                            Inl e \<Rightarrow> Inl e
                          | Inr active \<Rightarrow>
                              if \<not> truthy active
                              then Inl (Error ''Token is not active'')
                              else Inr (Valid (field data ''username'')
                                          (or_else (field data ''display_name'') (field data ''username''))
                                          (field data ''email'')
                                          (field data ''exp''))))))"

text \<open>\<^verbatim>\<open>verifyDuoToken\<close>, the same text in \<^verbatim>\<open>server-http.js\<close> and in the SSE server: the
  \<^verbatim>\<open>catch\<close> logs the error and returns \<^verbatim>\<open>{ valid: false }\<close>.\<close>

definition verifyDuoToken :: "engine \<Rightarrow> env \<Rightarrow> string \<Rightarrow> (exn + verification) async" where
  "verifyDuoToken eng env token =
     bind (verifyDuoToken_try eng env token)
       (\<lambda>r. Done (case r of Inl error \<Rightarrow> Inr Invalid | Inr v \<Rightarrow> Inr v))"

subsection \<open>The Authorization header\<close>

text \<open>\<^verbatim>\<open>s.split(' ')\<close>\<close>

fun split_space :: "string \<Rightarrow> string list" where
  "split_space [] = [[]]"
| "split_space (c # cs) =
     (if c = CHR '' '' then [] # split_space cs
      else (case split_space cs of [] \<Rightarrow> [[c]] | w # ws \<Rightarrow> (c # w) # ws))"

text \<open>\<^verbatim>\<open>extractToken(req)\<close>, on \<^verbatim>\<open>req.headers.authorization\<close>; \<open>None\<close> is \<^verbatim>\<open>null\<close>.\<close>

definition extractToken :: "string option \<Rightarrow> string option" where
  "extractToken authHeader =
     (case authHeader of
        None \<Rightarrow> None
      | Some h \<Rightarrow>
          if h = [] then None
          else let parts = split_space h in
               if length parts \<noteq> 2 \<or> parts ! 0 \<noteq> ''Bearer'' then None
               else Some (parts ! 1))"

text \<open>\<^verbatim>\<open>!s\<close> for a string that may be \<^verbatim>\<open>undefined\<close> or \<^verbatim>\<open>null\<close>\<close>

fun falsy :: "string option \<Rightarrow> bool" where
  "falsy None = True"
| "falsy (Some t) = (t = [])"

subsection \<open>The authentication middleware\<close>

record user =
  user_username :: jsval
  user_displayName :: jsval
  user_email :: jsval

datatype 'a middleware = Responded http_response | Next 'a

definition unauthorized :: "string \<Rightarrow> http_response" where
  "unauthorized msg = Http 401 (Json (jsonrpc_error (Some JNull) (- 32600) msg))"

definition authenticateRequest :: "engine \<Rightarrow> env \<Rightarrow> string option \<Rightarrow> (exn + user middleware) async" where
  "authenticateRequest eng env authHeader =
     (if \<not> DUO_ENABLED env
      then Done (Inr (Next \<lparr>user_username = None, user_displayName = str ''Anonymous User'',
                             user_email = None\<rparr>))
      else let token = extractToken authHeader in
           if falsy token
           then Done (Inr (Responded (unauthorized ''Authorization token required'')))
           else await_then (verifyDuoToken eng env (the token))
                  (\<lambda>verification. Done (Inr
                     (case verification of
                        Invalid \<Rightarrow> Responded (unauthorized ''Invalid or expired token'')
                      | Valid username displayName email expiresAt \<Rightarrow>
                          Next \<lparr>user_username = username, user_displayName = displayName,
                                user_email = email\<rparr>))))"

subsection \<open>The route\<close>

definition duo_initialize_result :: "bool \<Rightarrow> json" where
  "duo_initialize_result duoEnabled =
     object [(''protocolVersion'', str ''2024-11-05''),
             (''capabilities'', Some (object [(''tools'', Some (object []))])),
             (''serverInfo'', Some (object [(''name'', str ''slack-mcp-http-duo''),
                                            (''version'', str ''1.0.0''),
                                            (''duoEnabled'', Some (JBool duoEnabled))]))]"

definition duo_tools_list_result :: json where
  "duo_tools_list_result =
     object [(''tools'', Some (JArr [object
       [(''name'', str ''slack_post_message''),
        (''description'', str ''Post a message to Slack (with your username)''),
        (''inputSchema'', Some (object
          [(''type'', str ''object''),
           (''properties'', Some (object
              [(''channel_id'', Some (object
                  [(''type'', str ''string''),
                   (''description'', str ''Slack channel ID (e.g., C08286T5HPV)'')])),
               (''text'', Some (object
                  [(''type'', str ''string''),
                   (''description'', str ''Message text to post'')]))])),
           (''required'', Some (JArr [JStr ''channel_id'', JStr ''text'']))]))]]))]"

text \<open>The branch \<^verbatim>\<open>name === 'slack_post_message'\<close> of the Duo server: the message
  carries the user name when Duo is enabled.\<close>

definition duo_slack_post_message :: "engine \<Rightarrow> env \<Rightarrow> jsval \<Rightarrow> jsval \<Rightarrow> jsval \<Rightarrow> json async" where
  "duo_slack_post_message eng env userName rid args =
     (case coercible args of
        Inl e \<Rightarrow> Done (jsonrpc_error rid (- 32000) (message eng e))
      | Inr a \<Rightarrow>
          let messageText =
                (if DUO_ENABLED env
                 then str (''*['' @ template userName @ '']* '' @ template (field a ''text''))
                 else field a ''text'')
          in Await (Fetch (Some slack_url) (Bearer (env_template (SLACK_BOT_TOKEN env)))
                      (JsonText (object [(''channel'', field a ''channel_id''), (''text'', messageText)])))
               (\<lambda>slackResponse. Done
                  (case slackResponse of
                     Rejected m \<Rightarrow> jsonrpc_error rid (- 32000) m
                   | Answered st body \<Rightarrow>
                       (case json_of eng body of
                          Inl e \<Rightarrow> jsonrpc_error rid (- 32000) (message eng e)
                        | Inr slackData \<Rightarrow>
                            (case get (Some slackData) ''ok'' of
                               Inl e \<Rightarrow> jsonrpc_error rid (- 32000) (message eng e)
                             | Inr okv \<Rightarrow>
                                 if truthy okv
                                 then jsonrpc_result rid (object
                                        [(''content'', Some (text_content
                                           (if DUO_ENABLED env
                                            then ''Message posted successfully as '' @ template userName
                                                 @ [CHR 0x0A] @ ''Channel: '' @ template (field a ''channel_id'')
                                                 @ [CHR 0x0A] @ ''Timestamp: '' @ template (field slackData ''ts'')
                                            else ''Sent: '' @ [CHR 0x22] @ template (field a ''text'')
                                                 @ [CHR 0x22])))])
                                 else jsonrpc_result rid (object
                                        [(''content'', Some (text_content
                                           (''Error: '' @ template (field slackData ''error'')))),
                                         (''isError'', Some (JBool True))]))))))"

definition duo_dispatch :: "engine \<Rightarrow> env \<Rightarrow> user \<Rightarrow> json \<Rightarrow> (exn + http_response) async" where
  "duo_dispatch eng env user request =
     (let userName = user_displayName user in
      case get (Some request) ''method'' of
        Inl e \<Rightarrow> Done (Inl e)
      | Inr method \<Rightarrow>
          if is_str method ''initialize''
          then Done (Inr (Http 200 (Json
                 (jsonrpc_result (field request ''id'') (duo_initialize_result (DUO_ENABLED env))))))
          else if is_str method ''tools/list''
          then Done (Inr (Http 200 (Json (jsonrpc_result (field request ''id'') duo_tools_list_result))))
          else if is_str method ''tools/call''
          then (case coercible (field request ''params'') of
                  Inl e \<Rightarrow> Done (Inl e)
                | Inr params \<Rightarrow>
                    if is_str (field params ''name'') ''slack_post_message''
                    then bind (duo_slack_post_message eng env userName (field request ''id'')
                                 (field params ''arguments''))
                           (\<lambda>response. Done (Inr (Http 200 (Json response))))
                    else Done (Inr (method_not_found (field request ''id''))))
          else if is_str method ''notifications/initialized''
          then Done (Inr (Http 200 (Text ''OK'')))
          else Done (Inr (method_not_found (field request ''id''))))"

text \<open>\<^verbatim>\<open>app.post('/mcp', authenticateRequest, async (req, res) => ...)\<close>, on the
  Authorization header and \<^verbatim>\<open>req.body\<close>.\<close>

definition duo_post_mcp :: "engine \<Rightarrow> env \<Rightarrow> string option \<Rightarrow> json \<Rightarrow> (exn + http_response) async" where
  "duo_post_mcp eng env authHeader request =
     await_then (authenticateRequest eng env authHeader)
       (\<lambda>m. case m of
               Responded res \<Rightarrow> Done (Inr res)
             | Next user \<Rightarrow>
                 bind (duo_dispatch eng env user request)
                   (\<lambda>r. Done (Inr (case r of
                                      Inl e \<Rightarrow> Http 500 (Json parse_error_response)
                                    | Inr res \<Rightarrow> res))))"

section \<open>The SSE server built on the MCP SDK\<close>

text \<open>This server hands the JSON-RPC dispatch to the SDK and registers two handlers. The
  handler of \<^verbatim>\<open>CallToolRequestSchema\<close>, on the request the SDK passes to it: the result it
  returns, or the exception it throws for an unknown tool.\<close>

definition error_result :: "string \<Rightarrow> json" where
  "error_result t = object [(''content'', Some (text_content t)), (''isError'', Some (JBool True))]"

definition sdk_call_tool :: "engine \<Rightarrow> string \<Rightarrow> json \<Rightarrow> (exn + json) async" where
  "sdk_call_tool eng bot_token request =
     (case coercible (field request ''params'') of
        Inl e \<Rightarrow> Done (Inl e)
      | Inr params \<Rightarrow>
          if is_str (field params ''name'') ''slack_post_message''
          then (case coercible (field params ''arguments'') of
                  Inl e \<Rightarrow> Done (Inr (error_result (''Exception: '' @ message eng e)))
                | Inr a \<Rightarrow>
                    Await (Fetch (Some slack_url) (Bearer bot_token)
                             (JsonText (object [(''channel'', field a ''channel_id''),
                                                (''text'', field a ''text'')])))
                      (\<lambda>slackResponse. Done (Inr
                         (case slackResponse of
                            Rejected m \<Rightarrow> error_result (''Exception: '' @ m)
                          | Answered st body \<Rightarrow>
                              (case json_of eng body of
                                 Inl e \<Rightarrow> error_result (''Exception: '' @ message eng e)
                               | Inr slackData \<Rightarrow>
                                   (case get (Some slackData) ''ok'' of
                                      Inl e \<Rightarrow> error_result (''Exception: '' @ message eng e)
                                    | Inr okv \<Rightarrow>
                                        if truthy okv
                                        then object
                                               [(''content'', Some (text_content
                                                  (''Successfully sent: '' @ [CHR 0x22]
                                                   @ template (field a ''text'') @ [CHR 0x22])))]
                                        else error_result
                                               (''Error: '' @ template (field slackData ''error''))))))))
          else Done (Inl (Error (''Unknown tool: '' @ template (field params ''name'')))))"

section \<open>The SSE server with Duo OAuth\<close>

subsection \<open>Encodings\<close>

text \<open>\<^verbatim>\<open>buffer.toString('hex')\<close>\<close>

definition hex_digit :: "nat \<Rightarrow> char" where
  "hex_digit d = ''0123456789abcdef'' ! d"

definition hex :: "8 word list \<Rightarrow> string" where
  "hex bs = concat (map (\<lambda>b. [hex_digit (unat b div 16), hex_digit (unat b mod 16)]) bs)"

text \<open>\<^verbatim>\<open>buffer.toString('base64url')\<close> and \<^verbatim>\<open>hash.digest('base64url')\<close>: the URL-safe
  alphabet, no padding.\<close>

definition base64url_alphabet :: string where
  "base64url_alphabet = ''ABCDEFGHIJKLMNOPQRSTUVWXYZabcdefghijklmnopqrstuvwxyz0123456789-_''"

definition b64 :: "nat \<Rightarrow> char" where
  "b64 i = base64url_alphabet ! i"

fun base64url :: "8 word list \<Rightarrow> string" where
  "base64url (a # b # c # bs) =
     (let n = unat a * 65536 + unat b * 256 + unat c
      in [b64 (n div 262144), b64 (n div 4096 mod 64), b64 (n div 64 mod 64), b64 (n mod 64)]
         @ base64url bs)"
| "base64url [a, b] =
     (let n = unat a * 1024 + unat b * 4
      in [b64 (n div 4096), b64 (n div 64 mod 64), b64 (n mod 64)])"
| "base64url [a] = (let n = unat a * 16 in [b64 (n div 64), b64 (n mod 64)])"
| "base64url [] = []"

text \<open>\<^verbatim>\<open>encodeURIComponent\<close>, on the UTF-8 bytes of the string\<close>

definition uri_unreserved :: "char \<Rightarrow> bool" where
  "uri_unreserved c =
     (c \<in> set (''ABCDEFGHIJKLMNOPQRSTUVWXYZabcdefghijklmnopqrstuvwxyz0123456789-_.!~*()''
                @ [CHR 0x27]))"

definition HEX_digit :: "nat \<Rightarrow> char" where
  "HEX_digit d = ''0123456789ABCDEF'' ! d"

definition encodeURIComponent :: "string \<Rightarrow> string" where
  "encodeURIComponent s =
     concat (map (\<lambda>c. if uri_unreserved c then [c]
                       else [CHR ''%'', HEX_digit (of_char c div 16), HEX_digit (of_char c mod 16)]) s)"

subsection \<open>The state of the server\<close>

text \<open>A JavaScript number that may be NaN.\<close>

datatype number = NaN | Number int


text \<open>A session of \<^verbatim>\<open>authSessions\<close>; a property not yet assigned is \<^verbatim>\<open>undefined\<close>.\<close>

record session =
  codeVerifier :: string
  timestamp :: int
  authenticated :: bool
  accessToken :: jsval
  refreshToken :: jsval
  expiresAt :: "number option"

text \<open>A connection of \<^verbatim>\<open>sseConnections\<close>. Its stream \<^verbatim>\<open>res\<close> is named by the
  connection's key: what is written to it is a frame with that key.\<close>

record connection =
  conn_user :: user
  connectedAt :: int

type_synonym frame = "nat \<times> string \<times> json"

text \<open>
  The two \<^verbatim>\<open>Map\<close>s and the counter. A \<^verbatim>\<open>Map\<close> is the list of its entries in
  insertion order, with distinct keys; \<^verbatim>\<open>set\<close> is \<open>AList.update\<close>, \<^verbatim>\<open>get\<close> is
  \<open>map_of\<close>. A handler is one step on this state: no other handler runs between its
  \<^verbatim>\<open>await\<close> and its resumption, and every \<^verbatim>\<open>Date.now()\<close> of one run reads the same
  \<open>now\<close>.
\<close>

record server =
  sseConnections :: "(nat \<times> connection) list"
  connectionIdCounter :: nat
  authSessions :: "(string \<times> session) list"

subsection \<open>The OAuth endpoints\<close>

text \<open>The loop over \<^verbatim>\<open>authSessions.entries()\<close> in \<^verbatim>\<open>/auth/duo-initiate\<close>, deleting the
  entries older than ten minutes.\<close>

fun sweep :: "int \<Rightarrow> (string \<times> session) list \<Rightarrow> (string \<times> session) list" where
  "sweep now [] = []"
| "sweep now ((key, v) # entries) =
     (if now - timestamp v > 10 * 60 * 1000 then sweep now entries
      else (key, v) # sweep now entries)"

definition authorize_url :: "env \<Rightarrow> string \<Rightarrow> string \<Rightarrow> string" where
  "authorize_url env state codeChallenge =
     ''https://'' @ env_template (DUO_API_HOSTNAME env) @ ''/oauth/v1/authorize?''
     @ ''response_type=code&''
     @ ''client_id='' @ encodeURIComponent (env_template (DUO_CLIENT_ID env)) @ ''&''
     @ ''redirect_uri='' @ encodeURIComponent (DUO_REDIRECT_URI env) @ ''&''
     @ ''state='' @ state @ ''&''
     @ ''code_challenge='' @ codeChallenge @ ''&''
     @ ''code_challenge_method=S256&''
     @ ''scope=openid''"

text \<open>\<^verbatim>\<open>app.get('/auth/duo-initiate')\<close>; the two arguments of bytes are what the two
  calls of \<^verbatim>\<open>crypto.randomBytes(32)\<close> return.\<close>

definition auth_duo_initiate ::
  "engine \<Rightarrow> env \<Rightarrow> int \<Rightarrow> 8 word list \<Rightarrow> 8 word list \<Rightarrow> server \<Rightarrow> http_response \<times> server" where
  "auth_duo_initiate eng env now stateBytes verifierBytes srv =
     (if falsy (DUO_API_HOSTNAME env) \<or> falsy (DUO_CLIENT_ID env)
      then (Http 500 (Json (object [(''error'', str ''Duo OAuth not configured'')])), srv)
      else let state = hex stateBytes;
               verifier = base64url verifierBytes;
               codeChallenge = base64url (sha256 eng verifier);
               sessions = AList.update state
                            \<lparr>codeVerifier = verifier, timestamp = now, authenticated = False,
                             accessToken = None, refreshToken = None, expiresAt = None\<rparr>
                            (authSessions srv);
               authUrl = authorize_url env state codeChallenge
           in (Http 200 (Json (object [(''authUrl'', str authUrl), (''state'', str state)])),
               srv\<lparr>authSessions := sweep now sessions\<rparr>))"

definition token_exchange :: "env \<Rightarrow> string \<Rightarrow> session \<Rightarrow> fetch" where
  "token_exchange env code session =
     Fetch (Some (''https://'' @ env_template (DUO_API_HOSTNAME env) @ ''/oauth/v1/token''))
       (Basic (env_template (DUO_CLIENT_ID env)) (env_template (DUO_CLIENT_SECRET env)))
       (Form [(''grant_type'', ''authorization_code''),
              (''code'', code),
              (''redirect_uri'', DUO_REDIRECT_URI env),
              (''code_verifier'', codeVerifier session)])"

definition authentication_failed :: "string \<Rightarrow> http_response" where
  "authentication_failed msg = Http 500 (Html (AuthenticationFailed msg))"

text \<open>
  \<^verbatim>\<open>app.get('/auth/callback')\<close>, on \<^verbatim>\<open>req.query.code\<close> and \<^verbatim>\<open>req.query.state\<close>. The
  session is an object held by the map: assigning to its properties changes the entry
  under its key, also when a later statement of the \<^verbatim>\<open>try\<close> block throws.
\<close>

definition auth_callback ::
  "engine \<Rightarrow> env \<Rightarrow> int \<Rightarrow> string option \<Rightarrow> string option \<Rightarrow> server \<Rightarrow> (http_response \<times> server) async" where
  "auth_callback eng env now code state srv =
     (if falsy code \<or> falsy state
      then Done (Http 400 (Text ''Missing code or state parameter''), srv)
      else case map_of (authSessions srv) (the state) of
             None \<Rightarrow> Done (Http 400 (Text ''Invalid or expired session''), srv)
           | Some session \<Rightarrow>
               Await (token_exchange env (the code) session)
                 (\<lambda>tokenResponse. Done
                    (case tokenResponse of
                       Rejected m \<Rightarrow> (authentication_failed m, srv)
                     | Answered st body \<Rightarrow>
                         if \<not> ok st
                         then (authentication_failed
                                 (''Token exchange failed: '' @ decimal st @ '' - '' @ body), srv)
                         else (case json_of eng body of
                                 Inl e \<Rightarrow> (authentication_failed (message eng e), srv)
                               | Inr tokenData \<Rightarrow>
                                   let session1 = session\<lparr>authenticated := True\<rparr> in
                                   (case coercible (Some tokenData) of
                                      Inl e \<Rightarrow>
                                        (authentication_failed (message eng e),
                                         srv\<lparr>authSessions :=
                                               AList.update (the state) session1 (authSessions srv)\<rparr>)
                                    | Inr t \<Rightarrow>
                                        (Http 200 (Html AuthenticationSuccessful),
                                         srv\<lparr>authSessions :=
                                               AList.update (the state)
                                                 (session1\<lparr>accessToken := field t ''access_token'',
                                                            refreshToken := field t ''refresh_token'',
                                                            expiresAt := Some
                                                              (case ToNumber eng (field t ''expires_in'') of
                                                                 None \<Rightarrow> NaN
                                                               | Some n \<Rightarrow> Number (now + n * 1000))\<rparr>)
                                                 (authSessions srv)\<rparr>))))))"


subsection \<open>The Slack call of the SSE server\<close>

definition slack_token_missing :: string where
  "slack_token_missing =
     ''SLACK_BOT_TOKEN '' @ [CHR 0xE3, CHR 0x81, CHR 0x8C, CHR 0xE8, CHR 0xA8, CHR 0xAD,
     CHR 0xE5, CHR 0xAE, CHR 0x9A, CHR 0xE3, CHR 0x81, CHR 0x95, CHR 0xE3, CHR 0x82,
     CHR 0x8C, CHR 0xE3, CHR 0x81, CHR 0xA6, CHR 0xE3, CHR 0x81, CHR 0x84, CHR 0xE3,
     CHR 0x81, CHR 0xBE, CHR 0xE3, CHR 0x81, CHR 0x9B, CHR 0xE3, CHR 0x82, CHR 0x93]"

definition slack_api_error :: string where
  "slack_api_error =
     ''Slack API '' @ [CHR 0xE3, CHR 0x82, CHR 0xA8, CHR 0xE3, CHR 0x83, CHR 0xA9, CHR 0xE3,
     CHR 0x83, CHR 0xBC]"

text \<open>\<^verbatim>\<open>postToSlack(channel, text, username)\<close>\<close>

definition postToSlack :: "engine \<Rightarrow> env \<Rightarrow> jsval \<Rightarrow> jsval \<Rightarrow> jsval \<Rightarrow> (exn + json) async" where
  "postToSlack eng env channel text username =
     (if falsy (SLACK_BOT_TOKEN env)
      then Done (Inl (Error slack_token_missing))
      else Await (Fetch (Some slack_url) (Bearer (env_template (SLACK_BOT_TOKEN env)))
                    (JsonText (object
                       [(''channel'', channel),
                        (''text'', str (''*['' @ template username @ '']* '' @ template text))])))
             (\<lambda>response. Done
                (case response of
                   Rejected m \<Rightarrow> Inl (Error m)
                 | Answered st body \<Rightarrow>
                     (case json_of eng body of
                        Inl e \<Rightarrow> Inl e
                      | Inr data \<Rightarrow>
                          (case get (Some data) ''ok'' of
                             Inl e \<Rightarrow> Inl e
                           | Inr okv \<Rightarrow>
                               if \<not> truthy okv
                               then Inl (Error (template
                                      (or_else (field data ''error'') (str slack_api_error))))
                               else Inr data)))))"

subsection \<open>The MCP routes of the SSE server\<close>

definition error_body :: "string \<Rightarrow> http_body" where
  "error_body msg = Json (object [(''error'', str msg)])"

definition status_ok :: http_response where
  "status_ok = Http 200 (Json (object [(''status'', str ''ok'')]))"

text \<open>\<^verbatim>\<open>sendJSONRPCResponse(res, id, result)\<close> and \<^verbatim>\<open>sendJSONRPCError(res, id, code,
  message)\<close>, on the stream of connection \<open>cid\<close>\<close>

definition sendJSONRPCResponse :: "nat \<Rightarrow> jsval \<Rightarrow> json \<Rightarrow> frame" where
  "sendJSONRPCResponse cid rid r = (cid, ''message'', jsonrpc_result rid r)"

definition sendJSONRPCError :: "nat \<Rightarrow> jsval \<Rightarrow> int \<Rightarrow> string \<Rightarrow> frame" where
  "sendJSONRPCError cid rid code msg = (cid, ''message'', jsonrpc_error rid code msg)"

definition sse_initialize_result :: json where
  "sse_initialize_result =
     object [(''protocolVersion'', str ''2024-11-05''),
             (''capabilities'', Some (object [(''tools'', Some (object []))])),
             (''serverInfo'', Some (object [(''name'', str ''slack-mcp-server-duo''),
                                            (''version'', str ''1.0.0'')]))]"

definition sse_tool_description :: string where
  "sse_tool_description =
     ''Slack'' @ [CHR 0xE3, CHR 0x83, CHR 0x81, CHR 0xE3, CHR 0x83, CHR 0xA3, CHR 0xE3,
     CHR 0x83, CHR 0xB3, CHR 0xE3, CHR 0x83, CHR 0x8D, CHR 0xE3, CHR 0x83, CHR 0xAB,
     CHR 0xE3, CHR 0x81, CHR 0xAB, CHR 0xE3, CHR 0x83, CHR 0xA1, CHR 0xE3, CHR 0x83,
     CHR 0x83, CHR 0xE3, CHR 0x82, CHR 0xBB, CHR 0xE3, CHR 0x83, CHR 0xBC, CHR 0xE3,
     CHR 0x82, CHR 0xB8, CHR 0xE3, CHR 0x82, CHR 0x92, CHR 0xE6, CHR 0x8A, CHR 0x95,
     CHR 0xE7, CHR 0xA8, CHR 0xBF, CHR 0xE3, CHR 0x81, CHR 0x97, CHR 0xE3, CHR 0x81,
     CHR 0xBE, CHR 0xE3, CHR 0x81, CHR 0x99, CHR 0xEF, CHR 0xBC, CHR 0x88, CHR 0xE3,
     CHR 0x83, CHR 0xA6, CHR 0xE3, CHR 0x83, CHR 0xBC, CHR 0xE3, CHR 0x82, CHR 0xB6,
     CHR 0xE3, CHR 0x83, CHR 0xBC, CHR 0xE5, CHR 0x90, CHR 0x8D, CHR 0xE4, CHR 0xBB,
     CHR 0x98, CHR 0xE3, CHR 0x81, CHR 0x8D, CHR 0xEF, CHR 0xBC, CHR 0x89]"

definition sse_channel_description :: string where
  "sse_channel_description =
     [CHR 0xE3, CHR 0x83, CHR 0x81, CHR 0xE3, CHR 0x83, CHR 0xA3, CHR 0xE3, CHR 0x83,
     CHR 0xB3, CHR 0xE3, CHR 0x83, CHR 0x8D, CHR 0xE3, CHR 0x83,
     CHR 0xAB] @ ''ID'' @ [CHR 0xEF, CHR 0xBC, CHR 0x88, CHR 0xE4, CHR 0xBE,
     CHR 0x8B] @ '': C08286T5HPV'' @ [CHR 0xEF, CHR 0xBC, CHR 0x89]"

definition sse_text_description :: string where
  "sse_text_description =
     [CHR 0xE6, CHR 0x8A, CHR 0x95, CHR 0xE7, CHR 0xA8, CHR 0xBF, CHR 0xE3, CHR 0x81,
     CHR 0x99, CHR 0xE3, CHR 0x82, CHR 0x8B, CHR 0xE3, CHR 0x83, CHR 0xA1, CHR 0xE3,
     CHR 0x83, CHR 0x83, CHR 0xE3, CHR 0x82, CHR 0xBB, CHR 0xE3, CHR 0x83, CHR 0xBC,
     CHR 0xE3, CHR 0x82, CHR 0xB8]"

definition sse_tools_list_result :: json where
  "sse_tools_list_result =
     object [(''tools'', Some (JArr [object
       [(''name'', str ''postMessage''),
        (''description'', str sse_tool_description),
        (''inputSchema'', Some (object
          [(''type'', str ''object''),
           (''properties'', Some (object
              [(''channel'', Some (object
                  [(''type'', str ''string''), (''description'', str sse_channel_description)])),
               (''text'', Some (object
                  [(''type'', str ''string''), (''description'', str sse_text_description)]))])),
           (''required'', Some (JArr [JStr ''channel'', JStr ''text'']))]))]]))]"

definition posted_text :: "jsval \<Rightarrow> jsval \<Rightarrow> jsval \<Rightarrow> string" where
  "posted_text userName channel ts =
     [CHR 0xE3, CHR 0x83, CHR 0xA1, CHR 0xE3, CHR 0x83, CHR 0x83, CHR 0xE3, CHR 0x82,
     CHR 0xBB, CHR 0xE3, CHR 0x83, CHR 0xBC, CHR 0xE3, CHR 0x82, CHR 0xB8, CHR 0xE3,
     CHR 0x82, CHR 0x92, CHR 0xE6, CHR 0x8A, CHR 0x95, CHR 0xE7, CHR 0xA8, CHR 0xBF,
     CHR 0xE3, CHR 0x81, CHR 0x97, CHR 0xE3, CHR 0x81, CHR 0xBE, CHR 0xE3, CHR 0x81,
     CHR 0x97, CHR 0xE3, CHR 0x81, CHR 0x9F, CHR 0xEF, CHR 0xBC, CHR 0x88]
     @ template userName @
     [CHR 0xE3, CHR 0x81, CHR 0xA8, CHR 0xE3, CHR 0x81, CHR 0x97, CHR 0xE3, CHR 0x81,
     CHR 0xA6, CHR 0xEF, CHR 0xBC, CHR 0x89]
     @ [CHR 0x0A] @
     [CHR 0xE3, CHR 0x83, CHR 0x81, CHR 0xE3, CHR 0x83, CHR 0xA3, CHR 0xE3, CHR 0x83,
     CHR 0xB3, CHR 0xE3, CHR 0x83, CHR 0x8D, CHR 0xE3, CHR 0x83, CHR 0xAB] @ '': ''
     @ template channel @ [CHR 0x0A] @
     [CHR 0xE3, CHR 0x82, CHR 0xBF, CHR 0xE3, CHR 0x82, CHR 0xA4, CHR 0xE3, CHR 0x83,
     CHR 0xA0, CHR 0xE3, CHR 0x82, CHR 0xB9, CHR 0xE3, CHR 0x82, CHR 0xBF, CHR 0xE3,
     CHR 0x83, CHR 0xB3, CHR 0xE3, CHR 0x83, CHR 0x97] @ '': ''
     @ template ts"

text \<open>\<^verbatim>\<open>app.get('/mcp')\<close>: opens the stream of a verified caller and registers it.\<close>

definition sse_get_mcp ::
  "engine \<Rightarrow> env \<Rightarrow> int \<Rightarrow> string option \<Rightarrow> server \<Rightarrow> (exn + http_response \<times> frame list \<times> server) async" where
  "sse_get_mcp eng env now authHeader srv =
     (let token = extractToken authHeader in
      if falsy token
      then Done (Inr (Http 401 (error_body ''Authorization token required''), [], srv))
      else await_then (verifyDuoToken eng env (the token))
             (\<lambda>verification. Done (Inr
                (case verification of
                   Invalid \<Rightarrow> (Http 401 (error_body ''Invalid or expired token''), [], srv)
                 | Valid username displayName email exp \<Rightarrow>
                     let connectionId = connectionIdCounter srv + 1 in
                     (Http 200 EventStream,
                      [(connectionId, ''endpoint'',
                        object [(''path'', str ''/mcp''),
                                (''connectionId'', num (int connectionId)),
                                (''authenticated'', Some (JBool True)),
                                (''user'', displayName)])],
                      srv\<lparr>connectionIdCounter := connectionId,
                          sseConnections :=
                            AList.update connectionId
                              \<lparr>conn_user = \<lparr>user_username = username,
                                            user_displayName = displayName,
                                            user_email = email\<rparr>,
                               connectedAt = now\<rparr>
                              (sseConnections srv)\<rparr>)))))"

text \<open>The listener of \<^verbatim>\<open>req.on('close')\<close> and the cleanup run by \<^verbatim>\<open>setInterval\<close>.\<close>

definition sse_close :: "nat \<Rightarrow> server \<Rightarrow> server" where
  "sse_close connectionId srv =
     srv\<lparr>sseConnections := AList.delete connectionId (sseConnections srv)\<rparr>"

fun expire_connections :: "int \<Rightarrow> (nat \<times> connection) list \<Rightarrow> (nat \<times> connection) list" where
  "expire_connections now [] = []"
| "expire_connections now ((connectionId, conn) # entries) =
     (if now - connectedAt conn > 3600000 then expire_connections now entries
      else (connectionId, conn) # expire_connections now entries)"

definition sse_cleanup :: "int \<Rightarrow> server \<Rightarrow> server" where
  "sse_cleanup now srv = srv\<lparr>sseConnections := expire_connections now (sseConnections srv)\<rparr>"

text \<open>The \<^verbatim>\<open>try\<close> block of \<^verbatim>\<open>app.post('/mcp')\<close>, with the target connection \<open>cid\<close> and
  its user name: the HTTP response and the frames written to the stream, or the exception
  thrown (always before anything is written).\<close>

definition sse_try ::
  "engine \<Rightarrow> env \<Rightarrow> nat \<Rightarrow> jsval \<Rightarrow> json \<Rightarrow> (exn + http_response \<times> frame list) async" where
  "sse_try eng env cid userName msg =
     (let method = field msg ''method''; rid = field msg ''id'' in
      if is_str method ''initialize''
      then Done (Inr (status_ok, [sendJSONRPCResponse cid rid sse_initialize_result]))
      else if is_str method ''tools/list''
      then Done (Inr (status_ok, [sendJSONRPCResponse cid rid sse_tools_list_result]))
      else if is_str method ''tools/call''
      then (let toolName = get_opt (field msg ''params'') ''name'';
                args = get_opt (field msg ''params'') ''arguments''
            in if is_str toolName ''postMessage''
               then (case coercible args of
                       Inl e \<Rightarrow> Done (Inl e)
                     | Inr a \<Rightarrow>
                         (case field a ''text'' of
                            Some (JStr t) \<Rightarrow>
                              await_then (postToSlack eng env (field a ''channel'') (str t) userName)
                                (\<lambda>result. Done (Inr
                                   (status_ok,
                                    [sendJSONRPCResponse cid rid (object
                                       [(''content'', Some (text_content
                                          (posted_text userName (field a ''channel'')
                                             (field result ''ts''))))])])))
                          | _ \<Rightarrow> Done (Inl TypeError)))
               else Done (Inr (Http 400 (error_body ''Unknown tool''),
                               [sendJSONRPCError cid rid (- 32601)
                                  (''Unknown tool: '' @ template toolName)])))
      else if truthy method
      then (case method of
              Some (JStr m) \<Rightarrow>
                if take 14 m = ''notifications/''
                then Done (Inr (status_ok, []))
                else Done (Inr (Http 400 (error_body ''Method not found''),
                                [sendJSONRPCError cid rid (- 32601) ''Method not found'']))
            | _ \<Rightarrow> Done (Inl TypeError))
      else Done (Inr (Http 400 (error_body ''Method not found''),
                      [sendJSONRPCError cid rid (- 32601) ''Method not found''])))"

text \<open>The first connection, in the order of the map, whose user has the verified
  email.\<close>

definition targetConnection :: "jsval \<Rightarrow> (nat \<times> connection) list \<Rightarrow> (nat \<times> connection) option" where
  "targetConnection email conns =
     find (\<lambda>(cid, conn). strict_eq (user_email (conn_user conn)) email) conns"

text \<open>\<^verbatim>\<open>app.post('/mcp')\<close> of the SSE server, on the Authorization header and
  \<^verbatim>\<open>req.body\<close>.\<close>

definition sse_post_mcp ::
  "engine \<Rightarrow> env \<Rightarrow> string option \<Rightarrow> json \<Rightarrow> server \<Rightarrow> (exn + http_response \<times> frame list \<times> server) async" where
  "sse_post_mcp eng env authHeader msg srv =
     (case coercible (Some msg) of
        Inl e \<Rightarrow> Done (Inl e)
      | Inr m \<Rightarrow>
          let token = extractToken authHeader in
          if falsy token
          then Done (Inr (Http 401 (error_body ''Authorization token required''), [], srv))
          else await_then (verifyDuoToken eng env (the token))
                 (\<lambda>verification.
                    case verification of
                      Invalid \<Rightarrow> Done (Inr (Http 401 (error_body ''Invalid or expired token''), [], srv))
                    | Valid username displayName email exp \<Rightarrow>
                        (case targetConnection email (sseConnections srv) of
                           None \<Rightarrow>
                             Done (Inr (Http 404 (error_body
                               ''No active SSE connection found. Please establish GET /mcp connection first.''),
                               [], srv))
                         | Some (cid, conn) \<Rightarrow>
                             bind (sse_try eng env cid (user_displayName (conn_user conn)) m)
                               (\<lambda>r. Done (Inr
                                  (case r of
                                     Inl error \<Rightarrow>
                                       (Http 500 (error_body (message eng error)),
                                        [sendJSONRPCError cid (field m ''id'') (- 32603)
                                           (message eng error)],
                                        srv)
                                   | Inr (res, frames) \<Rightarrow> (res, frames, srv)))))))"

text \<open>The same route behind \<^verbatim>\<open>bodyParser.json()\<close>, on the text of the request body.\<close>

definition sse_request_mcp ::
  "engine \<Rightarrow> env \<Rightarrow> string option \<Rightarrow> string \<Rightarrow> server \<Rightarrow> (exn + http_response \<times> frame list \<times> server) async" where
  "sse_request_mcp eng env authHeader raw srv =
     (case express_json eng raw of
        None \<Rightarrow> Done (Inr (Http 400 (Html ExpressError), [], srv))
      | Some msg \<Rightarrow> sse_post_mcp eng env authHeader msg srv)"

subsection \<open>The server over a sequence of requests\<close>

text \<open>The requests and timers that act on the state of the SSE server, each with the
  world that answers what its handler fetches.\<close>

datatype event =
    Initiate int "8 word list" "8 word list"
  | Callback int "string option" "string option"
  | Status "string option"
  | McpGet int "string option"
  | McpPost "string option" json
  | Close nat
  | Cleanup int

fun step :: "engine \<Rightarrow> env \<Rightarrow> server \<Rightarrow> (fetch \<Rightarrow> response) \<times> event \<Rightarrow> server" where
  "step eng env srv (world, Initiate now stateBytes verifierBytes) =
     snd (auth_duo_initiate eng env now stateBytes verifierBytes srv)"
| "step eng env srv (world, Callback now code state) =
     snd (snd (run world (auth_callback eng env now code state srv)))"
| "step eng env srv (world, Status state) = srv"
| "step eng env srv (world, McpGet now authHeader) =
     (case snd (run world (sse_get_mcp eng env now authHeader srv)) of
        Inl e \<Rightarrow> srv
      | Inr (res, frames, srv') \<Rightarrow> srv')"
| "step eng env srv (world, McpPost authHeader msg) =
     (case snd (run world (sse_post_mcp eng env authHeader msg srv)) of
        Inl e \<Rightarrow> srv
      | Inr (res, frames, srv') \<Rightarrow> srv')"
| "step eng env srv (world, Close connectionId) = sse_close connectionId srv"
| "step eng env srv (world, Cleanup now) = sse_cleanup now srv"

text \<open>The server before any request, and after a sequence of them.\<close>

definition server0 :: server where
  "server0 = \<lparr>sseConnections = [], connectionIdCounter = 0, authSessions = []\<rparr>"

definition serve :: "engine \<Rightarrow> env \<Rightarrow> ((fetch \<Rightarrow> response) \<times> event) list \<Rightarrow> server" where
  "serve eng env events = foldl (step eng env) server0 events"

section \<open>Notions of the specification\<close>

text \<open>An Authorization header of the exact two-part form \<^verbatim>\<open>Bearer <token>\<close>: the word
  \<^verbatim>\<open>Bearer\<close>, one space, and a token that is not empty and has no space.\<close>

definition bearer_form :: "string option \<Rightarrow> bool" where
  "bearer_form authHeader =
     (case authHeader of
        None \<Rightarrow> False
      | Some h \<Rightarrow> take 7 h = ''Bearer '' \<and> drop 7 h \<noteq> [] \<and> CHR '' '' \<notin> set (drop 7 h))"

text \<open>The \<^verbatim>\<open>state\<close> values produced by the initiations among a sequence of requests.\<close>

fun issued_by :: "(fetch \<Rightarrow> response) \<times> event \<Rightarrow> string list" where
  "issued_by (world, Initiate now stateBytes verifierBytes) = [hex stateBytes]"
| "issued_by (world, e) = []"

definition issued :: "((fetch \<Rightarrow> response) \<times> event) list \<Rightarrow> string list" where
  "issued events = concat (map issued_by events)"

text \<open>The response to an \<^verbatim>\<open>initialize\<close> request that the specification asks for: the
  request's \<^verbatim>\<open>id\<close> and the supported protocol version.\<close>

definition initialize_response :: "json \<Rightarrow> json \<Rightarrow> bool" where
  "initialize_response request r =
     (field r ''id'' = field request ''id'' \<and>
      get_opt (field r ''result'') ''protocolVersion'' = str ''2024-11-05'')"

text \<open>The \<^verbatim>\<open>code\<close> of the \<^verbatim>\<open>error\<close> of a JSON-RPC response, and of the JSON body of an
  HTTP response.\<close>

definition error_code :: "json \<Rightarrow> int option" where
  "error_code r =
     (case get_opt (field r ''error'') ''code'' of Some (JNum c) \<Rightarrow> Some c | _ \<Rightarrow> None)"

fun body_error_code :: "http_response \<Rightarrow> int option" where
  "body_error_code (Http st (Json j)) = error_code j"
| "body_error_code (Http st b) = None"

text \<open>
  The two responses that report an error \<open>e\<close> of Slack to the caller, written out as the
  JSON that is sent: the JSON-RPC result flagged \<^verbatim>\<open>isError: true\<close> whose one content
  block is the text \<^verbatim>\<open>Error: \<close> followed by \<open>e\<close>, and the JSON-RPC error with a code and
  a message. The \<^verbatim>\<open>id\<close> is the one of the request, and is absent when the request has
  none.
\<close>

definition flagged_error_response :: "jsval \<Rightarrow> string \<Rightarrow> json" where
  "flagged_error_response rid e =
     JObj ((''jsonrpc'', JStr ''2.0'') # (case rid of None \<Rightarrow> [] | Some i \<Rightarrow> [(''id'', i)]) @
           [(''result'',
             JObj [(''content'',
                    JArr [JObj [(''type'', JStr ''text''), (''text'', JStr (''Error: '' @ e))]]),
                   (''isError'', JBool True)])])"

definition error_response :: "jsval \<Rightarrow> int \<Rightarrow> string \<Rightarrow> json" where
  "error_response rid code m =
     JObj ((''jsonrpc'', JStr ''2.0'') # (case rid of None \<Rightarrow> [] | Some i \<Rightarrow> [(''id'', i)]) @
           [(''error'', JObj [(''code'', JNum code), (''message'', JStr m)])])"

section \<open>An example platform\<close>

text \<open>A platform, an environment and replies of the outside world on which the
  theorems below are instantiated. The parser of the example platform knows the texts
  it is given here and \<^verbatim>\<open>null\<close>, and rejects every other text.\<close>

definition slack_failure_text :: string where
  "slack_failure_text = ''{'' @ [CHR 0x22] @ ''ok'' @ [CHR 0x22] @ '':false,'' @ [CHR 0x22] @ ''error'' @ [CHR 0x22] @ '':'' @ [CHR 0x22] @ ''channel_not_found'' @ [CHR 0x22] @ ''}''"

definition introspection_text :: string where
  "introspection_text = ''{'' @ [CHR 0x22] @ ''active'' @ [CHR 0x22] @ '':true,'' @ [CHR 0x22] @ ''username'' @ [CHR 0x22] @ '':'' @ [CHR 0x22] @ ''ada'' @ [CHR 0x22] @ '','' @ [CHR 0x22] @ ''email'' @ [CHR 0x22] @ '':'' @ [CHR 0x22] @ ''ada@example.org'' @ [CHR 0x22] @ ''}''"

definition active_string_text :: string where
  "active_string_text = ''{'' @ [CHR 0x22] @ ''active'' @ [CHR 0x22] @ '':'' @ [CHR 0x22] @ ''false'' @ [CHR 0x22] @ ''}''"

definition token_text :: string where
  "token_text = ''{'' @ [CHR 0x22] @ ''access_token'' @ [CHR 0x22] @ '':'' @ [CHR 0x22] @ ''at-1'' @ [CHR 0x22] @ '','' @ [CHR 0x22] @ ''refresh_token'' @ [CHR 0x22] @ '':'' @ [CHR 0x22] @ ''rt-1'' @ [CHR 0x22] @ '','' @ [CHR 0x22] @ ''expires_in'' @ [CHR 0x22] @ '':3600}''"

definition initialize_text :: string where
  "initialize_text = ''{'' @ [CHR 0x22] @ ''jsonrpc'' @ [CHR 0x22] @ '':'' @ [CHR 0x22] @ ''2.0'' @ [CHR 0x22] @ '','' @ [CHR 0x22] @ ''id'' @ [CHR 0x22] @ '':1,'' @ [CHR 0x22] @ ''method'' @ [CHR 0x22] @ '':'' @ [CHR 0x22] @ ''initialize'' @ [CHR 0x22] @ ''}''"

definition initialize_request :: json where
  "initialize_request =
     JObj [(''jsonrpc'', JStr ''2.0''), (''id'', JNum 1), (''method'', JStr ''initialize'')]"

definition unknown_tool_text :: string where
  "unknown_tool_text =
     ''{'' @ [CHR 0x22] @ ''jsonrpc'' @ [CHR 0x22] @ '':'' @ [CHR 0x22] @ ''2.0'' @ [CHR 0x22] @ '','' @ [CHR 0x22] @ ''id'' @ [CHR 0x22] @ '':2,'' @ [CHR 0x22] @ ''method'' @ [CHR 0x22] @ '':'' @ [CHR 0x22] @ ''tools/call'' @ [CHR 0x22] @ '','' @ [CHR 0x22] @ ''params'' @ [CHR 0x22] @ '':{'' @ [CHR 0x22] @ ''name'' @ [CHR 0x22] @ '':'' @ [CHR 0x22] @ ''delete_channel'' @ [CHR 0x22] @ '','' @ [CHR 0x22] @ ''arguments'' @ [CHR 0x22] @ '':{}}}''"

definition unknown_tool_request :: json where
  "unknown_tool_request =
     JObj [(''jsonrpc'', JStr ''2.0''), (''id'', JNum 2), (''method'', JStr ''tools/call''),
           (''params'', JObj [(''name'', JStr ''delete_channel''), (''arguments'', JObj [])])]"

definition slack_call_text :: string where
  "slack_call_text =
     ''{'' @ [CHR 0x22] @ ''jsonrpc'' @ [CHR 0x22] @ '':'' @ [CHR 0x22] @ ''2.0'' @ [CHR 0x22] @ '','' @ [CHR 0x22] @ ''id'' @ [CHR 0x22] @ '':3,'' @ [CHR 0x22] @ ''method'' @ [CHR 0x22] @ '':'' @ [CHR 0x22] @ ''tools/call'' @ [CHR 0x22] @ '','' @ [CHR 0x22] @ ''params'' @ [CHR 0x22] @ '':{'' @ [CHR 0x22] @ ''name'' @ [CHR 0x22] @ '':'' @ [CHR 0x22] @ ''slack_post_message'' @ [CHR 0x22] @ '','' @ [CHR 0x22] @ ''arguments'' @ [CHR 0x22] @ '':{'' @ [CHR 0x22] @ ''channel_id'' @ [CHR 0x22] @ '':'' @ [CHR 0x22] @ ''C123'' @ [CHR 0x22] @ '','' @ [CHR 0x22] @ ''text'' @ [CHR 0x22] @ '':'' @ [CHR 0x22] @ ''hi'' @ [CHR 0x22] @ ''}}}''"

definition slack_call_request :: json where
  "slack_call_request =
     JObj [(''jsonrpc'', JStr ''2.0''), (''id'', JNum 3), (''method'', JStr ''tools/call''),
           (''params'', JObj [(''name'', JStr ''slack_post_message''),
                              (''arguments'', JObj [(''channel_id'', JStr ''C123''),
                                                    (''text'', JStr ''hi'')])])]"

definition sse_call_request :: json where
  "sse_call_request =
     JObj [(''jsonrpc'', JStr ''2.0''), (''id'', JNum 4), (''method'', JStr ''tools/call''),
           (''params'', JObj [(''name'', JStr ''postMessage''),
                              (''arguments'', JObj [(''channel'', JStr ''C123''),
                                                    (''text'', JStr ''hi'')])])]"

definition example_engine :: engine where
  "example_engine =
     \<lparr>JSON_parse = (\<lambda>s.
        if s = slack_failure_text
        then Some (JObj [(''ok'', JBool False), (''error'', JStr ''channel_not_found'')])
        else if s = introspection_text
        then Some (JObj [(''active'', JBool True), (''username'', JStr ''ada''),
                         (''email'', JStr ''ada@example.org'')])
        else if s = token_text
        then Some (JObj [(''access_token'', JStr ''at-1''), (''refresh_token'', JStr ''rt-1''),
                         (''expires_in'', JNum 3600)])
        else if s = active_string_text then Some (JObj [(''active'', JStr ''false'')])
        else if s = initialize_text then Some initialize_request
        else if s = unknown_tool_text then Some unknown_tool_request
        else if s = slack_call_text then Some slack_call_request
        else if s = ''null'' then Some JNull
        else None),
      StringToNumber = (\<lambda>s. None),
      TypeError_message = ''TypeError'',
      SyntaxError_message = ''SyntaxError'',
      sha256 = (\<lambda>s. map of_char s)\<rparr>"

definition example_env :: env where
  "example_env =
     \<lparr>SLACK_BOT_TOKEN = Some ''xoxb-1'',
      DUO_ENABLED = True,
      DUO_TOKEN_INTROSPECTION_ENDPOINT = Some ''https://duo.example.org/oauth/v1/introspect'',
      DUO_CLIENT_ID = Some ''client'',
      DUO_CLIENT_SECRET = Some ''secret'',
      DUO_API_HOSTNAME = Some ''duo.example.org'',
      DUO_REDIRECT_URI = ''https://mcp.example.org/auth/callback''\<rparr>"

text \<open>A world in which Slack refuses the message, the introspection endpoint knows
  the token and the token endpoint grants the exchange.\<close>

fun example_world :: "fetch \<Rightarrow> response" where
  "example_world (Fetch u a p) =
     (if u = Some slack_url then Answered 200 slack_failure_text
      else if u = DUO_TOKEN_INTROSPECTION_ENDPOINT example_env then Answered 200 introspection_text
      else Answered 200 token_text)"

text \<open>A server with the streams of two users open.\<close>

definition server1 :: server where
  "server1 =
     \<lparr>sseConnections =
        [(1, \<lparr>conn_user = \<lparr>user_username = str ''bob'', user_displayName = str ''Bob'',
                            user_email = str ''bob@example.org''\<rparr>,
              connectedAt = 1000\<rparr>),
         (2, \<lparr>conn_user = \<lparr>user_username = str ''ada'', user_displayName = str ''ada'',
                            user_email = str ''ada@example.org''\<rparr>,
              connectedAt = 2000\<rparr>)],
      connectionIdCounter = 2,
      authSessions = []\<rparr>"

text \<open>Two initiations, at time 0 and ten minutes later.\<close>

definition example_events :: "((fetch \<Rightarrow> response) \<times> event) list" where
  "example_events =
     [(example_world, Initiate 0 [0x01] [0x4D]),
      (example_world, Initiate 600000 [0x02] [0x4D, 0x61])]"

section \<open>Properties\<close>

subsection \<open>JavaScript values and asynchronous functions\<close>

lemma coercible_Some: "coercible (Some v) = (if v = JNull then Inl TypeError else Inr v)"
  by (cases v) simp_all

lemma get_Some: "get (Some v) k = (if v = JNull then Inl TypeError else Inr (field v k))"
  by (simp add: get_def coercible_Some)

lemma run_bind:
  "run w (bind m f) =
     (fst (run w m) @ fst (run w (f (snd (run w m)))), snd (run w (f (snd (run w m)))))"
  by (induction m) simp_all

lemma run_await_then:
  "run w (await_then m f) =
     (case snd (run w m) of
        Inl e \<Rightarrow> (fst (run w m), Inl e)
      | Inr a \<Rightarrow> (fst (run w m) @ fst (run w (f a)), snd (run w (f a))))"
  by (simp add: await_then_def run_bind split: sum.split)

subsection \<open>Token introspection\<close>

lemma calls_verifyDuoToken:
  "fst (run w (verifyDuoToken eng env token)) = [introspection env token]"
  by (simp add: verifyDuoToken_def verifyDuoToken_try_def run_bind)

lemma verifyDuoToken_never_throws:
  "\<exists>v. snd (run w (verifyDuoToken eng env token)) = Inr v"
  by (simp add: verifyDuoToken_def verifyDuoToken_try_def run_bind split: sum.split response.split)

lemma verifyDuoToken_valid_iff:
  "(\<exists>u d e x. snd (run w (verifyDuoToken eng env token)) = Inr (Valid u d e x)) =
   (\<exists>st body data. w (introspection env token) = Answered st body \<and> 200 \<le> st \<and> st \<le> 299 \<and>
       JSON_parse eng body = Some data \<and> truthy (field data ''active''))"
  by (cases "w (introspection env token)")
     (auto simp: verifyDuoToken_def verifyDuoToken_try_def run_bind json_of_def get_Some ok_def
           split: option.splits)

lemma verifyDuoToken_invalid_iff:
  "(snd (run w (verifyDuoToken eng env token)) = Inr Invalid) =
   (\<not> (\<exists>st body data. w (introspection env token) = Answered st body \<and> 200 \<le> st \<and> st \<le> 299 \<and>
       JSON_parse eng body = Some data \<and> truthy (field data ''active'')))"
  by (cases "w (introspection env token)")
     (auto simp: verifyDuoToken_def verifyDuoToken_try_def run_bind json_of_def get_Some ok_def
           split: option.splits)

lemma truthy_iff:
  "truthy v = (v \<notin> {None, Some JNull, Some (JBool False), Some (JNum 0), Some (JStr [])})"
proof (cases v)
  case None
  then show ?thesis by simp
next
  case (Some j)
  then show ?thesis by (cases j) auto
qed

text \<open>
  Claim C4, amended. Whatever the token and whatever the world answers to the
  introspection request, \<^verbatim>\<open>verifyDuoToken\<close> makes that one request and returns a tagged
  result, never an exception. The result is \<^verbatim>\<open>valid: true\<close> exactly when the request
  was answered with a status from 200 to 299 and a JSON body whose \<^verbatim>\<open>active\<close> is
  truthy, that is any value but \<^verbatim>\<open>undefined\<close> (no such property), \<^verbatim>\<open>null\<close>,
  \<^verbatim>\<open>false\<close>, \<^verbatim>\<open>0\<close> and the empty string. For every other outcome it is
  \<^verbatim>\<open>{ valid: false }\<close>: a rejected request, a status outside 2xx, a body that is not
  JSON, and a body whose \<^verbatim>\<open>active\<close> is one of those five values.
\<close>

theorem verifyDuoToken_tagged_result:
  "\<exists>v. run world (verifyDuoToken eng env token) = ([introspection env token], Inr v) \<and>
       (v = Invalid) =
         (\<not> (\<exists>st body data. world (introspection env token) = Answered st body \<and>
               200 \<le> st \<and> st \<le> 299 \<and> JSON_parse eng body = Some data \<and>
               field data ''active'' \<notin>
                 {None, Some JNull, Some (JBool False), Some (JNum 0), Some (JStr [])})) \<and>
       (\<exists>u d e x. v = Valid u d e x) =
         (\<exists>st body data. world (introspection env token) = Answered st body \<and>
               200 \<le> st \<and> st \<le> 299 \<and> JSON_parse eng body = Some data \<and>
               field data ''active'' \<notin>
                 {None, Some JNull, Some (JBool False), Some (JNum 0), Some (JStr [])})"
proof -
  obtain v where v: "snd (run world (verifyDuoToken eng env token)) = Inr v"
    using verifyDuoToken_never_throws by blast
  have r: "run world (verifyDuoToken eng env token) = ([introspection env token], Inr v)"
    using v calls_verifyDuoToken[of world eng env token] by (simp add: prod_eq_iff)
  have i: "(v = Invalid) =
         (\<not> (\<exists>st body data. world (introspection env token) = Answered st body \<and>
               200 \<le> st \<and> st \<le> 299 \<and> JSON_parse eng body = Some data \<and>
               truthy (field data ''active'')))"
    using v verifyDuoToken_invalid_iff[of world eng env token] by simp
  have a: "(\<exists>u d e x. v = Valid u d e x) =
         (\<exists>st body data. world (introspection env token) = Answered st body \<and>
               200 \<le> st \<and> st \<le> 299 \<and> JSON_parse eng body = Some data \<and>
               truthy (field data ''active''))"
    using v verifyDuoToken_valid_iff[of world eng env token] by simp
  show ?thesis
    using r i a unfolding truthy_iff by blast
qed

text \<open>For a JSON body whose \<^verbatim>\<open>active\<close> is a boolean, the result is valid exactly for a
  status 2xx with \<^verbatim>\<open>active: true\<close>.\<close>

lemma verifyDuoToken_boolean_active:
  assumes "world (introspection env token) = Answered st body"
    and "JSON_parse eng body = Some data" and "field data ''active'' = Some (JBool b)"
  shows "snd (run world (verifyDuoToken eng env token)) =
           Inr (if ok st \<and> b
                then Valid (field data ''username'')
                       (or_else (field data ''display_name'') (field data ''username''))
                       (field data ''email'') (field data ''exp'')
                else Invalid)"
proof -
  have "data \<noteq> JNull" using assms(3) by (cases data) simp_all
  then show ?thesis
    using assms
    by (simp add: verifyDuoToken_def verifyDuoToken_try_def run_bind json_of_def get_Some)
qed

text \<open>The outcomes the claim names, on the example platform.\<close>

lemma example_parse:
  "JSON_parse example_engine slack_failure_text =
     Some (JObj [(''ok'', JBool False), (''error'', JStr ''channel_not_found'')])"
  "JSON_parse example_engine introspection_text =
     Some (JObj [(''active'', JBool True), (''username'', JStr ''ada''),
                 (''email'', JStr ''ada@example.org'')])"
  "JSON_parse example_engine token_text =
     Some (JObj [(''access_token'', JStr ''at-1''), (''refresh_token'', JStr ''rt-1''),
                 (''expires_in'', JNum 3600)])"
  "JSON_parse example_engine initialize_text = Some initialize_request"
  "JSON_parse example_engine unknown_tool_text = Some unknown_tool_request"
  "JSON_parse example_engine slack_call_text = Some slack_call_request"
  "JSON_parse example_engine ''<html>'' = None"
  "JSON_parse example_engine ''{'' = None"
  "JSON_parse example_engine ''null'' = Some JNull"
  "JSON_parse example_engine active_string_text = Some (JObj [(''active'', JStr ''false'')])"
  by (simp_all add: example_engine_def slack_failure_text_def introspection_text_def
        token_text_def initialize_text_def unknown_tool_text_def slack_call_text_def
        active_string_text_def)


lemma verifyDuoToken_examples:
  "snd (run (\<lambda>c. Rejected ''ECONNREFUSED'') (verifyDuoToken example_engine example_env ''t'')) = Inr Invalid"
  "snd (run (\<lambda>c. Answered 503 introspection_text) (verifyDuoToken example_engine example_env ''t'')) = Inr Invalid"
  "snd (run (\<lambda>c. Answered 200 ''<html>'') (verifyDuoToken example_engine example_env ''t'')) = Inr Invalid"
  "snd (run (\<lambda>c. Answered 200 slack_failure_text) (verifyDuoToken example_engine example_env ''t'')) = Inr Invalid"
  "snd (run (\<lambda>c. Answered 200 introspection_text) (verifyDuoToken example_engine example_env ''t''))
     = Inr (Valid (str ''ada'') (str ''ada'') (str ''ada@example.org'') None)"
  by (simp_all add: verifyDuoToken_def verifyDuoToken_try_def run_bind json_of_def get_Some ok_def
        example_parse or_else_def)

text \<open>
  Claim C4 fails as stated: the check of the reply is \<^verbatim>\<open>if (!data.active)\<close>, a test of
  truthiness. A reply with status 200 whose \<^verbatim>\<open>active\<close> is the string
  \<^verbatim>\<open>"false"\<close>, which is not \<^verbatim>\<open>active: true\<close>, is taken as valid.
\<close>

theorem active_string_counterexample:
  "JSON_parse example_engine active_string_text = Some (JObj [(''active'', JStr ''false'')]) \<and>
   field (JObj [(''active'', JStr ''false'')]) ''active'' \<noteq> Some (JBool True) \<and>
   run (\<lambda>c. Answered 200 active_string_text)
     (verifyDuoToken example_engine example_env ''tok-ada'') =
     ([introspection example_env ''tok-ada''], Inr (Valid None None None None))"
  by (simp add: verifyDuoToken_def verifyDuoToken_try_def json_of_def get_Some ok_def
        example_parse or_else_def)

subsection \<open>The Authorization header\<close>

lemma split_space_not_Nil: "split_space s \<noteq> []"
  by (induction s) (simp_all split: list.split)

lemma split_space_one: "(split_space s = [w]) = (s = w \<and> CHR '' '' \<notin> set w)"
proof (induction s arbitrary: w)
  case Nil
  then show ?case by auto
next
  case (Cons c s)
  show ?case
  proof (cases "c = CHR '' ''")
    case True
    then show ?thesis by (auto simp: split_space_not_Nil)
  next
    case False
    obtain x xs where sp: "split_space s = x # xs"
      using split_space_not_Nil[of s] by (cases "split_space s") auto
    show ?thesis
    proof (cases w)
      case Nil
      then show ?thesis using False sp by simp
    next
      case (Cons d w')
      have "(split_space (c # s) = [d # w']) = (c = d \<and> split_space s = [w'])"
        using False sp by auto
      then show ?thesis using Cons Cons.IH[of w'] False by auto
    qed
  qed
qed

lemma split_space_two:
  "(split_space s = [a, b]) = (s = a @ CHR '' '' # b \<and> CHR '' '' \<notin> set a \<and> CHR '' '' \<notin> set b)"
proof (induction s arbitrary: a)
  case Nil
  then show ?case by simp
next
  case (Cons c s)
  show ?case
  proof (cases "c = CHR '' ''")
    case True
    then show ?thesis
      by (cases a) (auto simp: split_space_one)
  next
    case False
    obtain x xs where sp: "split_space s = x # xs"
      using split_space_not_Nil[of s] by (cases "split_space s") auto
    show ?thesis
    proof (cases a)
      case Nil
      then show ?thesis using False sp by simp
    next
      case (Cons d a')
      have "(split_space (c # s) = [d # a', b]) = (c = d \<and> split_space s = [a', b])"
        using False sp by auto
      then show ?thesis using Cons Cons.IH[of a'] False by auto
    qed
  qed
qed

text \<open>\<^verbatim>\<open>extractToken\<close> returns a token exactly for the header \<^verbatim>\<open>Bearer\<close>, one space and
  a token without a space (the token may be empty).\<close>

lemma extractToken_Some:
  "(extractToken authHeader = Some t) =
   (authHeader = Some (''Bearer '' @ t) \<and> CHR '' '' \<notin> set t)"
proof (cases authHeader)
  case None
  then show ?thesis by (simp add: extractToken_def)
next
  case (Some h)
  have two: "(length xs = 2 \<and> xs ! 0 = ''Bearer'' \<and> xs ! 1 = t) = (xs = [''Bearer'', t])"
    for xs :: "string list"
  proof (cases xs)
    case Nil
    then show ?thesis by simp
  next
    case (Cons x ys)
    then show ?thesis by (cases ys) auto
  qed
  have "h \<noteq> [] \<Longrightarrow> (extractToken (Some h) = Some t) = (split_space h = [''Bearer'', t])"
    unfolding two[symmetric] by (auto simp: extractToken_def Let_def)
  moreover have "h = [] \<Longrightarrow> (extractToken (Some h) = Some t) = (split_space h = [''Bearer'', t])"
    by (simp add: extractToken_def)
  ultimately have "(extractToken (Some h) = Some t) = (split_space h = [''Bearer'', t])"
    by blast
  then show ?thesis using Some by (auto simp: split_space_two)
qed

lemma falsy_extractToken: "falsy (extractToken authHeader) = (\<not> bearer_form authHeader)"
proof (cases "extractToken authHeader")
  case None
  have "\<not> bearer_form authHeader"
  proof
    assume b: "bearer_form authHeader"
    then obtain h where h: "authHeader = Some h"
      by (cases authHeader) (simp_all add: bearer_form_def)
    from b h have t: "take 7 h = ''Bearer ''" and d: "CHR '' '' \<notin> set (drop 7 h)"
      by (simp_all add: bearer_form_def)
    have "h = take 7 h @ drop 7 h" by simp
    with t have "h = ''Bearer '' @ drop 7 h" by metis
    then have "extractToken authHeader = Some (drop 7 h)"
      using h d extractToken_Some[of authHeader "drop 7 h"] by simp
    with None show False by simp
  qed
  with None show ?thesis by simp
next
  case (Some t)
  then have "authHeader = Some (''Bearer '' @ t)" "CHR '' '' \<notin> set t"
    by (simp_all add: extractToken_Some)
  then show ?thesis using Some by (simp add: bearer_form_def)
qed

lemma no_token_responses:
  assumes "falsy (extractToken authHeader)"
  shows "DUO_ENABLED env \<Longrightarrow>
           authenticateRequest eng env authHeader =
             Done (Inr (Responded (unauthorized ''Authorization token required'')))"
    and "sse_get_mcp eng env now authHeader srv =
           Done (Inr (Http 401 (error_body ''Authorization token required''), [], srv))"
    and "msg \<noteq> JNull \<Longrightarrow>
           sse_post_mcp eng env authHeader msg srv =
             Done (Inr (Http 401 (error_body ''Authorization token required''), [], srv))"
  using assms
  by (simp_all add: authenticateRequest_def sse_get_mcp_def sse_post_mcp_def coercible_Some)

text \<open>
  Claim C8. A request whose Authorization header is absent or not of the form
  \<^verbatim>\<open>Bearer <token>\<close> is answered with status 401 at once: the check is done without
  awaiting anything, so the introspection request is not made. This holds for the
  middleware of the Duo HTTP server when Duo is enabled (the requests it protects) and
  for the two MCP routes of the SSE server (whose handler reads a body that the body
  parser has set, which is never \<^verbatim>\<open>null\<close>); the state of the SSE server is unchanged.
\<close>

theorem malformed_header_rejected_without_introspection:
  assumes "\<not> bearer_form authHeader"
  shows "(DUO_ENABLED env \<longrightarrow>
            authenticateRequest eng env authHeader =
              Done (Inr (Responded (unauthorized ''Authorization token required'')))) \<and>
         sse_get_mcp eng env now authHeader srv =
           Done (Inr (Http 401 (error_body ''Authorization token required''), [], srv)) \<and>
         (msg \<noteq> JNull \<longrightarrow>
            sse_post_mcp eng env authHeader msg srv =
              Done (Inr (Http 401 (error_body ''Authorization token required''), [], srv)))"
  using assms no_token_responses
  by (simp add: falsy_extractToken)

theorem malformed_header_rejected_without_introspection_witness:
  "\<not> bearer_form (Some ''Basic dXNlcjpwdw=='') \<and> DUO_ENABLED example_env \<and> JObj [] \<noteq> JNull \<and>
   authenticateRequest example_engine example_env (Some ''Basic dXNlcjpwdw=='') =
     Done (Inr (Responded (unauthorized ''Authorization token required''))) \<and>
   sse_get_mcp example_engine example_env 0 (Some ''Basic dXNlcjpwdw=='') server0 =
     Done (Inr (Http 401 (error_body ''Authorization token required''), [], server0)) \<and>
   sse_post_mcp example_engine example_env (Some ''Basic dXNlcjpwdw=='') (JObj []) server0 =
     Done (Inr (Http 401 (error_body ''Authorization token required''), [], server0))"
proof -
  have h: "\<not> bearer_form (Some ''Basic dXNlcjpwdw=='')"
    by (simp add: bearer_form_def)
  have e: "DUO_ENABLED example_env"
    by (simp add: example_env_def)
  show ?thesis
    using h e
      malformed_header_rejected_without_introspection
        [OF h, of example_env example_engine 0 server0 "JObj []"]
    by simp
qed

subsection \<open>The MCP route of the SSE server for a verified caller\<close>

text \<open>What the route does once the header has the bearer form, by the verdict of the
  introspection.\<close>

lemma run_sse_post_mcp_verified:
  assumes "msg \<noteq> JNull" and "bearer_form authHeader"
    and "snd (run world (verifyDuoToken eng env (the (extractToken authHeader)))) = Inr v"
  shows "run world (sse_post_mcp eng env authHeader msg srv) =
     (case v of
        Invalid \<Rightarrow> ([introspection env (the (extractToken authHeader))],
                    Inr (Http 401 (error_body ''Invalid or expired token''), [], srv))
      | Valid username displayName email exp \<Rightarrow>
          (case targetConnection email (sseConnections srv) of
             None \<Rightarrow> ([introspection env (the (extractToken authHeader))],
               Inr (Http 404 (error_body
                 ''No active SSE connection found. Please establish GET /mcp connection first.''),
                 [], srv))
           | Some (cid, conn) \<Rightarrow>
               (introspection env (the (extractToken authHeader))
                  # fst (run world (sse_try eng env cid (user_displayName (conn_user conn)) msg)),
                Inr (case snd (run world (sse_try eng env cid (user_displayName (conn_user conn)) msg)) of
                       Inl error \<Rightarrow>
                         (Http 500 (error_body (message eng error)),
                          [sendJSONRPCError cid (field msg ''id'') (- 32603) (message eng error)],
                          srv)
                     | Inr (res, frames) \<Rightarrow> (res, frames, srv)))))"
  using assms falsy_extractToken[of authHeader]
  by (simp add: sse_post_mcp_def coercible_Some run_await_then calls_verifyDuoToken run_bind
       split: verification.split option.split prod.split sum.split)

lemma targetConnection_None:
  "(targetConnection email conns = None) =
   (\<forall>entry \<in> set conns. \<not> strict_eq (user_email (conn_user (snd entry))) email)"
  by (auto simp: targetConnection_def find_None_iff)

text \<open>
  Claim C10. A POST to \<^verbatim>\<open>/mcp\<close> of the SSE server whose token is verified, while no
  registered connection has a user email strictly equal to the verified email, is
  answered with status 404. The only request made to the outside is the introspection
  (no call to Slack), nothing is written to any stream (no JSON-RPC method is
  dispatched), and the state of the server, with its two maps, is the one before.
\<close>

theorem no_connection_not_found:
  assumes "msg \<noteq> JNull" and "bearer_form authHeader"
    and "snd (run world (verifyDuoToken eng env (the (extractToken authHeader))))
           = Inr (Valid username displayName email exp)"
    and "\<forall>entry \<in> set (sseConnections srv). \<not> strict_eq (user_email (conn_user (snd entry))) email"
  shows "run world (sse_post_mcp eng env authHeader msg srv) =
           ([introspection env (the (extractToken authHeader))],
            Inr (Http 404 (error_body
                   ''No active SSE connection found. Please establish GET /mcp connection first.''),
                 [], srv))"
proof -
  have "targetConnection email (sseConnections srv) = None"
    using assms(4) by (simp add: targetConnection_None)
  then show ?thesis
    using run_sse_post_mcp_verified[OF assms(1,2,3), of srv] by simp
qed

lemma example_token: "extractToken (Some ''Bearer tok-ada'') = Some ''tok-ada''"
  by (simp add: extractToken_Some)

lemma example_bearer: "bearer_form (Some ''Bearer tok-ada'')"
  by (simp add: bearer_form_def)

lemma example_introspection:
  "example_world (introspection example_env t) = Answered 200 introspection_text"
  by (simp add: introspection_def example_env_def slack_url_def)

lemma example_verification:
  "snd (run example_world (verifyDuoToken example_engine example_env t)) =
     Inr (Valid (str ''ada'') (str ''ada'') (str ''ada@example.org'') None)"
  by (simp add: verifyDuoToken_def verifyDuoToken_try_def run_bind json_of_def get_Some ok_def
        example_introspection or_else_def example_parse)

theorem no_connection_not_found_witness:
  "run example_world
     (sse_post_mcp example_engine example_env (Some ''Bearer tok-ada'') initialize_request
        (sse_close 2 server1)) =
     ([introspection example_env ''tok-ada''],
      Inr (Http 404 (error_body
             ''No active SSE connection found. Please establish GET /mcp connection first.''),
           [], sse_close 2 server1))"
proof -
  have m: "initialize_request \<noteq> JNull"
    by (simp add: initialize_request_def)
  have v: "snd (run example_world (verifyDuoToken example_engine example_env
                 (the (extractToken (Some ''Bearer tok-ada'')))))
             = Inr (Valid (str ''ada'') (str ''ada'') (str ''ada@example.org'') None)"
    by (simp add: example_verification)
  have c: "\<forall>entry \<in> set (sseConnections (sse_close 2 server1)).
             \<not> strict_eq (user_email (conn_user (snd entry))) (str ''ada@example.org'')"
    by (simp add: sse_close_def server1_def)
  show ?thesis
    using no_connection_not_found[OF m example_bearer v c] by (simp add: example_token)
qed

subsection \<open>The \<^verbatim>\<open>initialize\<close> request\<close>

lemma field_jsonrpc_result:
  "field (jsonrpc_result rid r) ''id'' = rid"
  "field (jsonrpc_result rid r) ''result'' = Some r"
  "field (jsonrpc_result rid r) ''error'' = None"
  by (cases rid; simp add: jsonrpc_result_def)+

lemma field_jsonrpc_error:
  "field (jsonrpc_error rid code msg) ''id'' = rid"
  "field (jsonrpc_error rid code msg) ''result'' = None"
  "field (jsonrpc_error rid code msg) ''error'' =
     Some (JObj [(''code'', JNum code), (''message'', JStr msg)])"
  by (cases rid; simp add: jsonrpc_error_def)+

lemma initialize_response_results:
  "initialize_response request (jsonrpc_result (field request ''id'') (initialize_result name))"
  "initialize_response request (jsonrpc_result (field request ''id'') (duo_initialize_result b))"
  "initialize_response request (jsonrpc_result (field request ''id'') sse_initialize_result)"
  by (simp_all add: initialize_response_def field_jsonrpc_result initialize_result_def
        duo_initialize_result_def sse_initialize_result_def)

lemma method_not_JNull: "field request ''method'' = Some m \<Longrightarrow> request \<noteq> JNull"
  by (cases request) simp_all

lemma ws_initialize:
  assumes "JSON_parse eng data = Some request" and "field request ''method'' = str ''initialize''"
  shows "ws_on_message eng bot_token data =
           Done [jsonrpc_result (field request ''id'') (initialize_result ''slack-mcp'')]"
  using assms method_not_JNull[OF assms(2)]
  by (simp add: ws_on_message_def ws_dispatch_def get_Some is_str_def)

lemma http_initialize:
  assumes "field request ''method'' = str ''initialize''"
  shows "http_post_mcp eng bot_token request =
           Done (Http 200 (Json (jsonrpc_result (field request ''id'')
                   (initialize_result ''slack-mcp-http''))))"
  using assms method_not_JNull[OF assms]
  by (simp add: http_post_mcp_def http_dispatch_def get_Some is_str_def)

lemma run_duo_post_mcp_next:
  assumes "snd (run world (authenticateRequest eng env authHeader)) = Inr (Next user)"
  shows "snd (run world (duo_post_mcp eng env authHeader request)) =
           Inr (case snd (run world (duo_dispatch eng env user request)) of
                  Inl e \<Rightarrow> Http 500 (Json parse_error_response)
                | Inr res \<Rightarrow> res)"
  using assms by (simp add: duo_post_mcp_def run_await_then run_bind)

lemma duo_initialize:
  assumes "snd (run world (authenticateRequest eng env authHeader)) = Inr (Next user)"
    and "field request ''method'' = str ''initialize''"
  shows "snd (run world (duo_post_mcp eng env authHeader request)) =
           Inr (Http 200 (Json (jsonrpc_result (field request ''id'')
                  (duo_initialize_result (DUO_ENABLED env)))))"
  using method_not_JNull[OF assms(2)] assms(2)
  by (simp add: run_duo_post_mcp_next[OF assms(1)] duo_dispatch_def get_Some is_str_def)

lemma sse_initialize:
  assumes "bearer_form authHeader"
    and "snd (run world (verifyDuoToken eng env (the (extractToken authHeader))))
           = Inr (Valid username displayName email exp)"
    and "targetConnection email (sseConnections srv) = Some (cid, conn)"
    and "field request ''method'' = str ''initialize''"
  shows "run world (sse_post_mcp eng env authHeader request srv) =
           ([introspection env (the (extractToken authHeader))],
            Inr (status_ok,
                 [(cid, ''message'', jsonrpc_result (field request ''id'') sse_initialize_result)],
                 srv))"
  using run_sse_post_mcp_verified[OF method_not_JNull[OF assms(4)] assms(1,2), of srv] assms(3,4)
  by (simp add: sse_try_def is_str_def sendJSONRPCResponse_def)

text \<open>
  Claim C7. A request whose \<^verbatim>\<open>method\<close> is \<^verbatim>\<open>initialize\<close> gets, on each of the four
  hand-written servers, one JSON-RPC response whose \<^verbatim>\<open>id\<close> is the \<^verbatim>\<open>id\<close> of the request
  (absent when the request has none) and whose \<^verbatim>\<open>result.protocolVersion\<close> is
  \<^verbatim>\<open>2024-11-05\<close>: sent on the socket by the WebSocket server, as the body of the HTTP
  response by the two HTTP servers (behind the authentication middleware for the Duo one),
  and as a \<^verbatim>\<open>message\<close> frame on the caller's stream by the SSE server (for a verified
  caller with a registered connection).
\<close>

theorem initialize_echoes_id_and_version:
  assumes "field request ''method'' = str ''initialize''"
  shows "(JSON_parse eng data = Some request \<longrightarrow>
            (\<exists>r. ws_on_message eng bot_token data = Done [r] \<and> initialize_response request r)) \<and>
         (\<exists>r. http_post_mcp eng bot_token request = Done (Http 200 (Json r)) \<and>
               initialize_response request r) \<and>
         (snd (run world (authenticateRequest eng env authHeader)) = Inr (Next user) \<longrightarrow>
            (\<exists>r. snd (run world (duo_post_mcp eng env authHeader request)) = Inr (Http 200 (Json r)) \<and>
                  initialize_response request r)) \<and>
         (bearer_form authHeader' \<and>
          snd (run world (verifyDuoToken eng env (the (extractToken authHeader'))))
            = Inr (Valid username displayName email exp) \<and>
          targetConnection email (sseConnections srv) = Some (cid, conn) \<longrightarrow>
            (\<exists>r. snd (run world (sse_post_mcp eng env authHeader' request srv))
                    = Inr (status_ok, [(cid, ''message'', r)], srv) \<and>
                  initialize_response request r))"
  using assms ws_initialize[of eng data request bot_token] http_initialize[of request eng bot_token]
    duo_initialize[of world eng env authHeader user request]
    sse_initialize[of authHeader' world eng env username displayName email exp srv cid conn request]
  by (simp add: initialize_response_results)

lemma example_authenticated:
  "snd (run example_world (authenticateRequest example_engine example_env (Some ''Bearer tok-ada''))) =
     Inr (Next \<lparr>user_username = str ''ada'', user_displayName = str ''ada'',
                user_email = str ''ada@example.org''\<rparr>)"
  by (simp add: authenticateRequest_def example_token run_await_then example_verification)
     (simp add: example_env_def)

lemma example_connection:
  "targetConnection (str ''ada@example.org'') (sseConnections server1) =
     Some (2, \<lparr>conn_user = \<lparr>user_username = str ''ada'', user_displayName = str ''ada'',
                             user_email = str ''ada@example.org''\<rparr>,
               connectedAt = 2000\<rparr>)"
  by (simp add: targetConnection_def server1_def)

theorem initialize_echoes_id_and_version_witness:
  "(\<exists>r. ws_on_message example_engine ''xoxb-1'' initialize_text = Done [r] \<and>
        field r ''id'' = num 1 \<and> initialize_response initialize_request r) \<and>
   (\<exists>r. http_post_mcp example_engine ''xoxb-1'' initialize_request = Done (Http 200 (Json r)) \<and>
        initialize_response initialize_request r) \<and>
   (\<exists>r. snd (run example_world
               (duo_post_mcp example_engine example_env (Some ''Bearer tok-ada'') initialize_request))
          = Inr (Http 200 (Json r)) \<and>
        initialize_response initialize_request r) \<and>
   (\<exists>r. snd (run example_world
               (sse_post_mcp example_engine example_env (Some ''Bearer tok-ada'') initialize_request
                  server1))
          = Inr (status_ok, [(2, ''message'', r)], server1) \<and>
        initialize_response initialize_request r)"
proof -
  have m: "field initialize_request ''method'' = str ''initialize''"
    by (simp add: initialize_request_def)
  have i: "field initialize_request ''id'' = num 1"
    by (simp add: initialize_request_def)
  have v: "snd (run example_world (verifyDuoToken example_engine example_env
                 (the (extractToken (Some ''Bearer tok-ada'')))))
             = Inr (Valid (str ''ada'') (str ''ada'') (str ''ada@example.org'') None)"
    by (simp add: example_verification)
  show ?thesis
    using initialize_echoes_id_and_version[OF m, of example_engine initialize_text "''xoxb-1''"
        example_world example_env "Some ''Bearer tok-ada''" _ "Some ''Bearer tok-ada''"
        "str ''ada''" "str ''ada''" "str ''ada@example.org''" None server1]
      example_parse(4) example_authenticated example_bearer v example_connection i
    by (auto simp: initialize_response_def)
qed

subsection \<open>A call of a tool that is not registered\<close>

text \<open>The two HTTP servers answer a \<^verbatim>\<open>tools/call\<close> of an unknown tool with the error
  \<open>-32601\<close> (their last \<^verbatim>\<open>else\<close>), and the SSE server writes that error to the
  caller's stream.\<close>

lemma error_code_simps:
  "error_code (jsonrpc_error rid code msg) = Some code"
  "error_code (jsonrpc_result rid r) = None"
  by (simp_all add: error_code_def field_jsonrpc_error field_jsonrpc_result)

lemma http_unknown_tool:
  assumes "field request ''method'' = str ''tools/call''"
    and "field request ''params'' = Some params" and "params \<noteq> JNull"
    and "field params ''name'' \<noteq> str ''slack_post_message''"
  shows "http_post_mcp eng bot_token request =
           Done (Http 400 (Json (jsonrpc_error (field request ''id'') (- 32601) ''Method not found'')))"
  using assms method_not_JNull[OF assms(1)]
  by (simp add: http_post_mcp_def http_dispatch_def get_Some coercible_Some is_str_def
        method_not_found_def)

lemma duo_unknown_tool:
  assumes "snd (run world (authenticateRequest eng env authHeader)) = Inr (Next user)"
    and "field request ''method'' = str ''tools/call''"
    and "field request ''params'' = Some params" and "params \<noteq> JNull"
    and "field params ''name'' \<noteq> str ''slack_post_message''"
  shows "snd (run world (duo_post_mcp eng env authHeader request)) =
           Inr (Http 400 (Json (jsonrpc_error (field request ''id'') (- 32601) ''Method not found'')))"
  using assms(2-) method_not_JNull[OF assms(2)]
  by (simp add: run_duo_post_mcp_next[OF assms(1)] duo_dispatch_def get_Some coercible_Some
        is_str_def method_not_found_def)

lemma sse_unknown_tool:
  assumes "bearer_form authHeader"
    and "snd (run world (verifyDuoToken eng env (the (extractToken authHeader))))
           = Inr (Valid username displayName email exp)"
    and "targetConnection email (sseConnections srv) = Some (cid, conn)"
    and "field request ''method'' = str ''tools/call''"
    and "get_opt (field request ''params'') ''name'' \<noteq> str ''postMessage''"
  shows "run world (sse_post_mcp eng env authHeader request srv) =
           ([introspection env (the (extractToken authHeader))],
            Inr (Http 400 (error_body ''Unknown tool''),
                 [(cid, ''message'',
                   jsonrpc_error (field request ''id'') (- 32601)
                     (''Unknown tool: '' @ template (get_opt (field request ''params'') ''name'')))],
                 srv))"
  using run_sse_post_mcp_verified[OF method_not_JNull[OF assms(4)] assms(1,2), of srv] assms(3,4,5)
  by (simp add: sse_try_def is_str_def sendJSONRPCError_def Let_def)

lemma unknown_tool_examples:
  "http_post_mcp example_engine ''xoxb-1'' unknown_tool_request =
     Done (Http 400 (Json (jsonrpc_error (num 2) (- 32601) ''Method not found'')))"
  "snd (run example_world
          (duo_post_mcp example_engine example_env (Some ''Bearer tok-ada'') unknown_tool_request)) =
     Inr (Http 400 (Json (jsonrpc_error (num 2) (- 32601) ''Method not found'')))"
  "snd (run example_world
          (sse_post_mcp example_engine example_env (Some ''Bearer tok-ada'') unknown_tool_request
             server1)) =
     Inr (Http 400 (error_body ''Unknown tool''),
          [(2, ''message'', jsonrpc_error (num 2) (- 32601) ''Unknown tool: delete_channel'')],
          server1)"
proof -
  have m: "field unknown_tool_request ''method'' = str ''tools/call''"
    and p: "field unknown_tool_request ''params'' =
              Some (JObj [(''name'', JStr ''delete_channel''), (''arguments'', JObj [])])"
    and i: "field unknown_tool_request ''id'' = num 2"
    by (simp_all add: unknown_tool_request_def)
  show "http_post_mcp example_engine ''xoxb-1'' unknown_tool_request =
     Done (Http 400 (Json (jsonrpc_error (num 2) (- 32601) ''Method not found'')))"
    using http_unknown_tool[OF m p, of example_engine "''xoxb-1''"] i by simp
  show "snd (run example_world
          (duo_post_mcp example_engine example_env (Some ''Bearer tok-ada'') unknown_tool_request)) =
     Inr (Http 400 (Json (jsonrpc_error (num 2) (- 32601) ''Method not found'')))"
    using duo_unknown_tool[OF example_authenticated m p] i by simp
  have v: "snd (run example_world (verifyDuoToken example_engine example_env
                 (the (extractToken (Some ''Bearer tok-ada'')))))
             = Inr (Valid (str ''ada'') (str ''ada'') (str ''ada@example.org'') None)"
    by (simp add: example_verification)
  show "snd (run example_world
          (sse_post_mcp example_engine example_env (Some ''Bearer tok-ada'') unknown_tool_request
             server1)) =
     Inr (Http 400 (error_body ''Unknown tool''),
          [(2, ''message'', jsonrpc_error (num 2) (- 32601) ''Unknown tool: delete_channel'')],
          server1)"
    using sse_unknown_tool[OF example_bearer v example_connection m] p i by simp
qed

text \<open>
  Claim C2, on the WebSocket server. The branch \<^verbatim>\<open>tools/call\<close> of \<^verbatim>\<open>server.js\<close> has no
  \<^verbatim>\<open>else\<close> for a tool other than \<^verbatim>\<open>slack_post_message\<close> and the handler has no
  \<^verbatim>\<open>else\<close> for a \<^verbatim>\<open>response\<close> left \<^verbatim>\<open>null\<close>: for a well-formed call of an
  unregistered tool the handler is done without sending anything, so no error \<open>-32601\<close>
  (and no other response) reaches the client.
\<close>

theorem ws_unknown_tool_unanswered:
  assumes "JSON_parse eng data = Some request"
    and "field request ''method'' = str ''tools/call''"
    and "field request ''params'' = Some params" and "params \<noteq> JNull"
    and "field params ''name'' \<noteq> str ''slack_post_message''"
  shows "ws_on_message eng bot_token data = Done []"
  using assms method_not_JNull[OF assms(2)]
  by (simp add: ws_on_message_def ws_dispatch_def get_Some coercible_Some is_str_def)

theorem ws_unknown_tool_unanswered_witness:
  "ws_on_message example_engine ''xoxb-1'' unknown_tool_text = Done []"
proof -
  have m: "field unknown_tool_request ''method'' = str ''tools/call''"
    and p: "field unknown_tool_request ''params'' =
              Some (JObj [(''name'', JStr ''delete_channel''), (''arguments'', JObj [])])"
    by (simp_all add: unknown_tool_request_def)
  show ?thesis
    using ws_unknown_tool_unanswered[OF example_parse(5) m p] by simp
qed

subsection \<open>A failure reported by Slack\<close>

lemma jsonrpc_result_sent:
  "jsonrpc_result rid r =
     JObj ((''jsonrpc'', JStr ''2.0'') # (case rid of None \<Rightarrow> [] | Some i \<Rightarrow> [(''id'', i)]) @
           [(''result'', r)])"
  by (cases rid) (simp_all add: jsonrpc_result_def)

lemma error_response_sent: "jsonrpc_error rid code m = error_response rid code m"
  by (cases rid) (simp_all add: jsonrpc_error_def error_response_def)

lemma run_slack_post_message_failure:
  assumes "args \<noteq> JNull"
    and "\<forall>a b. world (Fetch (Some slack_url) a (JsonText b)) = Answered st body"
    and "JSON_parse eng body = Some data"
    and "field data ''ok'' = Some (JBool False)" and "field data ''error'' = str e"
  shows "run world (slack_post_message eng bot_token rid (Some args)) =
           ([Fetch (Some slack_url) (Bearer bot_token)
               (JsonText (object [(''channel'', field args ''channel_id''),
                                  (''text'', field args ''text'')]))],
            flagged_error_response rid e)"
proof -
  have "data \<noteq> JNull" using assms(4) by (cases data) simp_all
  then show ?thesis
    using assms
    by (simp add: slack_post_message_def coercible_Some json_of_def get_Some
          jsonrpc_result_sent text_content_def flagged_error_response_def)
qed

lemma run_duo_slack_post_message_failure:
  assumes "args \<noteq> JNull"
    and "\<forall>a b. world (Fetch (Some slack_url) a (JsonText b)) = Answered st body"
    and "JSON_parse eng body = Some data"
    and "field data ''ok'' = Some (JBool False)" and "field data ''error'' = str e"
  shows "snd (run world (duo_slack_post_message eng env userName rid (Some args))) =
           flagged_error_response rid e"
proof -
  have "data \<noteq> JNull" using assms(4) by (cases data) simp_all
  then show ?thesis
    using assms
    by (simp add: duo_slack_post_message_def coercible_Some json_of_def get_Some
          jsonrpc_result_sent text_content_def flagged_error_response_def Let_def)
qed

lemma ws_slack_failure:
  assumes "JSON_parse eng data = Some request"
    and "field request ''method'' = str ''tools/call''"
    and "field request ''params'' = Some params"
    and "field params ''name'' = str ''slack_post_message''"
    and "field params ''arguments'' = Some args" and "args \<noteq> JNull"
    and "\<forall>a b. world (Fetch (Some slack_url) a (JsonText b)) = Answered st body"
    and "JSON_parse eng body = Some slackData"
    and "field slackData ''ok'' = Some (JBool False)" and "field slackData ''error'' = str e"
  shows "snd (run world (ws_on_message eng bot_token data)) =
           [flagged_error_response (field request ''id'') e]"
proof -
  have "params \<noteq> JNull" using assms(4) by (cases params) simp_all
  then show ?thesis
    using assms(1-5) method_not_JNull[OF assms(2)]
      run_slack_post_message_failure[OF assms(6-10), of bot_token "field request ''id''"]
    by (simp add: ws_on_message_def ws_dispatch_def get_Some coercible_Some is_str_def run_bind)
qed

lemma http_slack_failure:
  assumes "field request ''method'' = str ''tools/call''"
    and "field request ''params'' = Some params"
    and "field params ''name'' = str ''slack_post_message''"
    and "field params ''arguments'' = Some args" and "args \<noteq> JNull"
    and "\<forall>a b. world (Fetch (Some slack_url) a (JsonText b)) = Answered st body"
    and "JSON_parse eng body = Some slackData"
    and "field slackData ''ok'' = Some (JBool False)" and "field slackData ''error'' = str e"
  shows "snd (run world (http_post_mcp eng bot_token request)) =
           Http 200 (Json (flagged_error_response (field request ''id'') e))"
proof -
  have "params \<noteq> JNull" using assms(3) by (cases params) simp_all
  then show ?thesis
    using assms(1-4) method_not_JNull[OF assms(1)]
      run_slack_post_message_failure[OF assms(5-9), of bot_token "field request ''id''"]
    by (simp add: http_post_mcp_def http_dispatch_def get_Some coercible_Some is_str_def run_bind)
qed

lemma duo_slack_failure:
  assumes "snd (run world (authenticateRequest eng env authHeader)) = Inr (Next user)"
    and "field request ''method'' = str ''tools/call''"
    and "field request ''params'' = Some params"
    and "field params ''name'' = str ''slack_post_message''"
    and "field params ''arguments'' = Some args" and "args \<noteq> JNull"
    and "\<forall>a b. world (Fetch (Some slack_url) a (JsonText b)) = Answered st body"
    and "JSON_parse eng body = Some slackData"
    and "field slackData ''ok'' = Some (JBool False)" and "field slackData ''error'' = str e"
  shows "snd (run world (duo_post_mcp eng env authHeader request)) =
           Inr (Http 200 (Json (flagged_error_response (field request ''id'') e)))"
proof -
  have "params \<noteq> JNull" using assms(4) by (cases params) simp_all
  then show ?thesis
    using assms(2-5) method_not_JNull[OF assms(2)]
      run_duo_slack_post_message_failure[OF assms(6-10), of env "user_displayName user"
        "field request ''id''"]
    by (simp add: run_duo_post_mcp_next[OF assms(1)] duo_dispatch_def get_Some coercible_Some
          is_str_def run_bind)
qed

lemma run_postToSlack_failure:
  assumes "\<not> falsy (SLACK_BOT_TOKEN env)"
    and "\<forall>a b. world (Fetch (Some slack_url) a (JsonText b)) = Answered st body"
    and "JSON_parse eng body = Some data"
    and "field data ''ok'' = Some (JBool False)" and "field data ''error'' = str e"
  shows "snd (run world (postToSlack eng env channel text userName)) =
           Inl (Error (if e = [] then slack_api_error else e))"
proof -
  have "data \<noteq> JNull" using assms(4) by (cases data) simp_all
  then show ?thesis
    using assms
    by (simp add: postToSlack_def json_of_def get_Some or_else_def)
qed

lemma sse_slack_failure:
  assumes "bearer_form authHeader"
    and "snd (run world (verifyDuoToken eng env (the (extractToken authHeader))))
           = Inr (Valid username displayName email exp)"
    and "targetConnection email (sseConnections srv) = Some (cid, conn)"
    and "field msg ''method'' = str ''tools/call''"
    and "field msg ''params'' = Some params"
    and "field params ''name'' = str ''postMessage''"
    and "field params ''arguments'' = Some args" and "field args ''text'' = str t"
    and "\<not> falsy (SLACK_BOT_TOKEN env)"
    and "\<forall>a b. world (Fetch (Some slack_url) a (JsonText b)) = Answered st body"
    and "JSON_parse eng body = Some slackData"
    and "field slackData ''ok'' = Some (JBool False)" and "field slackData ''error'' = str e"
  shows "snd (run world (sse_post_mcp eng env authHeader msg srv)) =
           Inr (Http 500 (Json (JObj [(''error'', JStr (if e = [] then slack_api_error else e))])),
                [(cid, ''message'',
                  error_response (field msg ''id'') (- 32603)
                    (if e = [] then slack_api_error else e))],
                srv)"
proof -
  have p: "params \<noteq> JNull" using assms(6) by (cases params) simp_all
  have a: "args \<noteq> JNull" using assms(8) by (cases args) simp_all
  have g: "get_opt (Some params) ''name'' = field params ''name''"
          "get_opt (Some params) ''arguments'' = field params ''arguments''"
    using p by (cases params; simp)+
  show ?thesis
    using run_sse_post_mcp_verified[OF method_not_JNull[OF assms(4)] assms(1,2), of srv]
      assms(3-8) p a g
      run_postToSlack_failure[OF assms(9-13), of "field args ''channel''" "str t"
        "user_displayName (conn_user conn)"]
    by (simp add: sse_try_def is_str_def sendJSONRPCError_def Let_def coercible_Some
          run_await_then error_response_sent error_body_def)
qed

text \<open>
  Claim C9. Slack answers the call with a JSON body whose \<^verbatim>\<open>ok\<close> is \<^verbatim>\<open>false\<close> and whose
  \<^verbatim>\<open>error\<close> is the string \<open>e\<close>. For a \<^verbatim>\<open>tools/call\<close> of \<^verbatim>\<open>slack_post_message\<close> with an
  \<^verbatim>\<open>arguments\<close> value, the WebSocket server sends, and the two HTTP servers answer with
  status 200 and, the JSON-RPC result flagged \<^verbatim>\<open>isError: true\<close> whose text is
  \<^verbatim>\<open>Error: \<close> followed by \<open>e\<close>, under the \<^verbatim>\<open>id\<close> of the request. For a \<^verbatim>\<open>tools/call\<close> of
  \<^verbatim>\<open>postMessage\<close> with a string \<^verbatim>\<open>text\<close>, the SSE server (bot token set, caller
  verified and connected) writes the JSON-RPC error \<open>-32603\<close> with the message \<open>e\<close> to the
  caller's stream, under the \<^verbatim>\<open>id\<close> of the request, and answers with status 500 and the
  body \<^verbatim>\<open>{error: e}\<close>; when \<open>e\<close> is the empty string the message is the text
  \<open>slack_api_error\<close> instead. Every response is stated as the JSON that is sent.
\<close>

theorem slack_failure_reported:
  assumes "\<forall>a b. world (Fetch (Some slack_url) a (JsonText b)) = Answered st body"
    and "JSON_parse eng body = Some slackData"
    and "field slackData ''ok'' = Some (JBool False)" and "field slackData ''error'' = str e"
  shows "(field request ''method'' = str ''tools/call'' \<and>
          field request ''params'' = Some params \<and>
          field params ''name'' = str ''slack_post_message'' \<and>
          field params ''arguments'' = Some args \<and> args \<noteq> JNull \<longrightarrow>
            (JSON_parse eng data = Some request \<longrightarrow>
               snd (run world (ws_on_message eng bot_token data)) =
                 [flagged_error_response (field request ''id'') e]) \<and>
            snd (run world (http_post_mcp eng bot_token request)) =
              Http 200 (Json (flagged_error_response (field request ''id'') e)) \<and>
            (snd (run world (authenticateRequest eng env authHeader)) = Inr (Next user) \<longrightarrow>
               snd (run world (duo_post_mcp eng env authHeader request)) =
                 Inr (Http 200 (Json (flagged_error_response (field request ''id'') e))))) \<and>
         (field msg ''method'' = str ''tools/call'' \<and>
          field msg ''params'' = Some params' \<and>
          field params' ''name'' = str ''postMessage'' \<and>
          field params' ''arguments'' = Some args' \<and> field args' ''text'' = str t \<and>
          \<not> falsy (SLACK_BOT_TOKEN env) \<and> bearer_form authHeader' \<and>
          snd (run world (verifyDuoToken eng env (the (extractToken authHeader'))))
            = Inr (Valid username displayName email exp) \<and>
          targetConnection email (sseConnections srv) = Some (cid, conn) \<longrightarrow>
            snd (run world (sse_post_mcp eng env authHeader' msg srv)) =
              Inr (Http 500
                     (Json (JObj [(''error'', JStr (if e = [] then slack_api_error else e))])),
                   [(cid, ''message'',
                     error_response (field msg ''id'') (- 32603)
                       (if e = [] then slack_api_error else e))],
                   srv))"
proof (intro conjI impI)
  assume r: "field request ''method'' = str ''tools/call'' \<and>
          field request ''params'' = Some params \<and>
          field params ''name'' = str ''slack_post_message'' \<and>
          field params ''arguments'' = Some args \<and> args \<noteq> JNull"
  show "snd (run world (http_post_mcp eng bot_token request)) =
              Http 200 (Json (flagged_error_response (field request ''id'') e))"
    using r http_slack_failure[OF _ _ _ _ _ assms, of request params args bot_token] by blast
  {
    assume "JSON_parse eng data = Some request"
    then show "snd (run world (ws_on_message eng bot_token data)) =
                 [flagged_error_response (field request ''id'') e]"
      using r ws_slack_failure[OF _ _ _ _ _ _ assms, of data request params args bot_token] by blast
  }
  {
    assume "snd (run world (authenticateRequest eng env authHeader)) = Inr (Next user)"
    then show "snd (run world (duo_post_mcp eng env authHeader request)) =
                 Inr (Http 200 (Json (flagged_error_response (field request ''id'') e)))"
      using r duo_slack_failure[OF _ _ _ _ _ _ assms, of env authHeader user request params args]
      by blast
  }
next
  assume s: "field msg ''method'' = str ''tools/call'' \<and>
          field msg ''params'' = Some params' \<and>
          field params' ''name'' = str ''postMessage'' \<and>
          field params' ''arguments'' = Some args' \<and> field args' ''text'' = str t \<and>
          \<not> falsy (SLACK_BOT_TOKEN env) \<and> bearer_form authHeader' \<and>
          snd (run world (verifyDuoToken eng env (the (extractToken authHeader'))))
            = Inr (Valid username displayName email exp) \<and>
          targetConnection email (sseConnections srv) = Some (cid, conn)"
  show "snd (run world (sse_post_mcp eng env authHeader' msg srv)) =
              Inr (Http 500
                     (Json (JObj [(''error'', JStr (if e = [] then slack_api_error else e))])),
                   [(cid, ''message'',
                     error_response (field msg ''id'') (- 32603)
                       (if e = [] then slack_api_error else e))],
                   srv)"
    using s sse_slack_failure[OF _ _ _ _ _ _ _ _ _ assms, of authHeader' env username displayName
        email exp srv cid conn msg params' args' t]
    by blast
qed

lemma example_slack:
  "\<forall>a b. example_world (Fetch (Some slack_url) a (JsonText b)) = Answered 200 slack_failure_text"
  by simp

theorem slack_failure_reported_witness:
  "snd (run example_world (ws_on_message example_engine ''xoxb-1'' slack_call_text)) =
     [JObj [(''jsonrpc'', JStr ''2.0''), (''id'', JNum 3),
            (''result'',
             JObj [(''content'',
                    JArr [JObj [(''type'', JStr ''text''),
                                (''text'', JStr ''Error: channel_not_found'')]]),
                   (''isError'', JBool True)])]] \<and>
   snd (run example_world (http_post_mcp example_engine ''xoxb-1'' slack_call_request)) =
     Http 200 (Json
       (JObj [(''jsonrpc'', JStr ''2.0''), (''id'', JNum 3),
              (''result'',
               JObj [(''content'',
                      JArr [JObj [(''type'', JStr ''text''),
                                  (''text'', JStr ''Error: channel_not_found'')]]),
                     (''isError'', JBool True)])])) \<and>
   snd (run example_world
          (duo_post_mcp example_engine example_env (Some ''Bearer tok-ada'') slack_call_request)) =
     Inr (Http 200 (Json
       (JObj [(''jsonrpc'', JStr ''2.0''), (''id'', JNum 3),
              (''result'',
               JObj [(''content'',
                      JArr [JObj [(''type'', JStr ''text''),
                                  (''text'', JStr ''Error: channel_not_found'')]]),
                     (''isError'', JBool True)])]))) \<and>
   snd (run example_world
          (sse_post_mcp example_engine example_env (Some ''Bearer tok-ada'') sse_call_request server1)) =
     Inr (Http 500 (Json (JObj [(''error'', JStr ''channel_not_found'')])),
          [(2, ''message'',
            JObj [(''jsonrpc'', JStr ''2.0''), (''id'', JNum 4),
                  (''error'', JObj [(''code'', JNum (- 32603)),
                                    (''message'', JStr ''channel_not_found'')])])],
          server1)"
proof -
  have r: "field slack_call_request ''method'' = str ''tools/call''"
      "field slack_call_request ''params'' =
         Some (JObj [(''name'', JStr ''slack_post_message''),
                     (''arguments'', JObj [(''channel_id'', JStr ''C123''), (''text'', JStr ''hi'')])])"
      "field slack_call_request ''id'' = num 3"
    by (simp_all add: slack_call_request_def)
  have s: "field sse_call_request ''method'' = str ''tools/call''"
      "field sse_call_request ''params'' =
         Some (JObj [(''name'', JStr ''postMessage''),
                     (''arguments'', JObj [(''channel'', JStr ''C123''), (''text'', JStr ''hi'')])])"
      "field sse_call_request ''id'' = num 4"
    by (simp_all add: sse_call_request_def)
  have t: "\<not> falsy (SLACK_BOT_TOKEN example_env)"
    by (simp add: example_env_def)
  have v: "snd (run example_world (verifyDuoToken example_engine example_env
                 (the (extractToken (Some ''Bearer tok-ada'')))))
             = Inr (Valid (str ''ada'') (str ''ada'') (str ''ada@example.org'') None)"
    by (simp add: example_verification)
  have d: "field (JObj [(''ok'', JBool False), (''error'', JStr ''channel_not_found'')]) ''ok''
             = Some (JBool False)"
      "field (JObj [(''ok'', JBool False), (''error'', JStr ''channel_not_found'')]) ''error''
             = str ''channel_not_found''"
    by simp_all
  show ?thesis
    using slack_failure_reported[OF example_slack example_parse(1) d,
        of slack_call_request
          "JObj [(''name'', JStr ''slack_post_message''),
                 (''arguments'', JObj [(''channel_id'', JStr ''C123''), (''text'', JStr ''hi'')])]"
          "JObj [(''channel_id'', JStr ''C123''), (''text'', JStr ''hi'')]"
          slack_call_text "''xoxb-1''" example_env "Some ''Bearer tok-ada''" _
          sse_call_request
          "JObj [(''name'', JStr ''postMessage''),
                 (''arguments'', JObj [(''channel'', JStr ''C123''), (''text'', JStr ''hi'')])]"
          "JObj [(''channel'', JStr ''C123''), (''text'', JStr ''hi'')]"
          "''hi''" "Some ''Bearer tok-ada''" "str ''ada''" "str ''ada''"
          "str ''ada@example.org''" None server1]
      r s t v example_parse(6) example_authenticated example_bearer example_connection
    by (simp add: flagged_error_response_def error_response_def)
qed

text \<open>
  The tool handler registered with the SDK server returns the flagged result as well.
  That server is not among those of the claim: its route \<^verbatim>\<open>POST /message\<close> answers 202
  and does not hand the message to the transport, so what the handler returns is not an
  answer to a caller of that route.
\<close>

lemma sdk_slack_failure:
  assumes "field request ''params'' = Some params"
    and "field params ''name'' = str ''slack_post_message''"
    and "field params ''arguments'' = Some args" and "args \<noteq> JNull"
    and "\<forall>a b. world (Fetch (Some slack_url) a (JsonText b)) = Answered st body"
    and "JSON_parse eng body = Some slackData"
    and "field slackData ''ok'' = Some (JBool False)" and "field slackData ''error'' = str e"
  shows "snd (run world (sdk_call_tool eng bot_token request)) =
           Inr (JObj [(''content'',
                       JArr [JObj [(''type'', JStr ''text''), (''text'', JStr (''Error: '' @ e))]]),
                      (''isError'', JBool True)])"
proof -
  have "params \<noteq> JNull" using assms(2) by (cases params) simp_all
  moreover have "slackData \<noteq> JNull" using assms(7) by (cases slackData) simp_all
  ultimately show ?thesis
    using assms
    by (simp add: sdk_call_tool_def coercible_Some json_of_def get_Some is_str_def
          error_result_def text_content_def)
qed

subsection \<open>A body that is not JSON\<close>

lemma body_error_code_simps:
  "body_error_code (Http st (error_body msg)) = None"
  "body_error_code status_ok = None"
  by (simp_all add: error_body_def status_ok_def error_code_def)

text \<open>Whatever the \<^verbatim>\<open>try\<close> block of the SSE route answers and writes, no error code is
  \<open>-32700\<close>.\<close>

lemma sse_try_no_parse_error:
  "snd (run world (sse_try eng env cid userName msg)) = Inr (res, frames) \<Longrightarrow>
     body_error_code res \<noteq> Some (- 32700) \<and>
     (\<forall>f \<in> set frames. error_code (snd (snd f)) \<noteq> Some (- 32700))"
  by (auto simp: sse_try_def Let_def run_await_then sendJSONRPCResponse_def
        sendJSONRPCError_def error_code_simps body_error_code_simps
      split: if_splits sum.splits option.splits json.splits)

lemma sse_request_mcp_no_parse_error:
  assumes "snd (run world (sse_request_mcp eng env authHeader raw srv)) = Inr (res, frames, srv')"
  shows "body_error_code res \<noteq> Some (- 32700) \<and>
         (\<forall>f \<in> set frames. error_code (snd (snd f)) \<noteq> Some (- 32700))"
proof (cases "express_json eng raw")
  case None
  then show ?thesis using assms by (auto simp: sse_request_mcp_def)
next
  case (Some msg)
  show ?thesis
  proof (cases "msg = JNull")
    case True
    then show ?thesis using assms Some by (simp add: sse_request_mcp_def sse_post_mcp_def)
  next
    case msg: False
    show ?thesis
    proof (cases "bearer_form authHeader")
      case False
      then have "falsy (extractToken authHeader)" by (simp add: falsy_extractToken)
      then show ?thesis
        using assms Some msg no_token_responses(3)[of authHeader msg eng env srv]
        by (auto simp: sse_request_mcp_def body_error_code_simps)
    next
      case True
      obtain v where v: "snd (run world (verifyDuoToken eng env (the (extractToken authHeader)))) = Inr v"
        using verifyDuoToken_never_throws by blast
      show ?thesis
      proof (cases v)
        case Invalid
        then show ?thesis
          using assms Some run_sse_post_mcp_verified[OF msg True v, of srv]
          by (auto simp: sse_request_mcp_def body_error_code_simps)
      next
        case (Valid username displayName email exp)
        show ?thesis
        proof (cases "targetConnection email (sseConnections srv)")
          case None
          then show ?thesis
            using assms Some Valid run_sse_post_mcp_verified[OF msg True v, of srv]
            by (auto simp: sse_request_mcp_def body_error_code_simps)
        next
          case (Some entry)
          obtain cid conn where entry: "entry = (cid, conn)" by (cases entry)
          show ?thesis
          proof (cases "snd (run world (sse_try eng env cid (user_displayName (conn_user conn)) msg))")
            case (Inl error)
            then show ?thesis
              using assms \<open>express_json eng raw = Some msg\<close> Valid Some entry
                run_sse_post_mcp_verified[OF msg True v, of srv]
              by (auto simp: sse_request_mcp_def body_error_code_simps
                    sendJSONRPCError_def error_code_simps)
          next
            case (Inr r)
            obtain res' frames' where r: "r = (res', frames')" by (cases r)
            show ?thesis
              using assms \<open>express_json eng raw = Some msg\<close> Valid Some entry Inr r
                run_sse_post_mcp_verified[OF msg True v, of srv]
                sse_try_no_parse_error[of world eng env cid "user_displayName (conn_user conn)" msg
                  res' frames']
              by (auto simp: sse_request_mcp_def)
          qed
        qed
      qed
    qed
  qed
qed

text \<open>
  Claim C3 fails as stated: the SSE server answers a body that is not JSON with the error
  page of Express (status 400) and writes nothing to any stream, not with the parse error
  \<open>-32700\<close>.
\<close>

theorem sse_malformed_body_counterexample:
  "JSON_parse example_engine ''{'' = None \<and>
   sse_request_mcp example_engine example_env (Some ''Bearer tok-ada'') ''{'' server1 =
     Done (Inr (Http 400 (Html ExpressError), [], server1)) \<and>
   Http 400 (Html ExpressError) \<noteq> Http 500 (Json parse_error_response) \<and>
   body_error_code (Http 400 (Html ExpressError)) \<noteq> Some (- 32700)"
  by (simp add: sse_request_mcp_def express_json_def example_parse)

text \<open>
  Claim C3, amended. A WebSocket message that is not valid JSON is answered with exactly
  \<^verbatim>\<open>{jsonrpc: "2.0", id: null, error: {code: -32700, message: "Parse error"}}\<close>. On the
  SSE server, a non-empty body that is not valid JSON is turned down by the body parser
  with status 400 before the route runs (nothing written, state unchanged), and no
  request at all makes that server answer, or write to a stream, an error with code
  \<open>-32700\<close>.
\<close>

theorem malformed_json_parse_error:
  "(JSON_parse eng data = None \<longrightarrow>
      ws_on_message eng bot_token data = Done [parse_error_response]) \<and>
   (JSON_parse eng raw = None \<and> raw \<noteq> [] \<longrightarrow>
      sse_request_mcp eng env authHeader raw srv =
        Done (Inr (Http 400 (Html ExpressError), [], srv))) \<and>
   (snd (run world (sse_request_mcp eng env authHeader raw' srv)) = Inr (res, frames, srv') \<longrightarrow>
      body_error_code res \<noteq> Some (- 32700) \<and>
      (\<forall>f \<in> set frames. error_code (snd (snd f)) \<noteq> Some (- 32700)))"
  using sse_request_mcp_no_parse_error[of world eng env authHeader raw' srv res frames srv']
  by (simp add: ws_on_message_def sse_request_mcp_def express_json_def)

theorem malformed_json_parse_error_witness:
  "ws_on_message example_engine ''xoxb-1'' ''{'' =
     Done [JObj [(''jsonrpc'', JStr ''2.0''), (''id'', JNull),
                 (''error'', JObj [(''code'', JNum (- 32700)), (''message'', JStr ''Parse error'')])]] \<and>
   sse_request_mcp example_engine example_env (Some ''Bearer tok-ada'') ''{'' server1 =
     Done (Inr (Http 400 (Html ExpressError), [], server1)) \<and>
   body_error_code (Http 400 (error_body ''Unknown tool'')) \<noteq> Some (- 32700) \<and>
   error_code (jsonrpc_error (num 2) (- 32601) ''Unknown tool: delete_channel'') \<noteq> Some (- 32700)"
proof -
  have u: "express_json example_engine unknown_tool_text = Some unknown_tool_request"
    by (simp add: express_json_def example_parse)
       (simp add: unknown_tool_text_def unknown_tool_request_def)
  have s: "snd (run example_world
             (sse_request_mcp example_engine example_env (Some ''Bearer tok-ada'') unknown_tool_text
                server1)) =
           Inr (Http 400 (error_body ''Unknown tool''),
                [(2, ''message'', jsonrpc_error (num 2) (- 32601) ''Unknown tool: delete_channel'')],
                server1)"
    by (simp add: sse_request_mcp_def u unknown_tool_examples(3))
  note t = malformed_json_parse_error[of example_engine "''{''" "''xoxb-1''" "''{''" example_env
        "Some ''Bearer tok-ada''" server1 example_world unknown_tool_text "Http 400 (error_body ''Unknown tool'')"
        "[(2, ''message'', jsonrpc_error (num 2) (- 32601) ''Unknown tool: delete_channel'')]"
        server1]
  have a: "ws_on_message example_engine ''xoxb-1'' ''{'' = Done [parse_error_response]"
    using t example_parse(8) by blast
  have b: "sse_request_mcp example_engine example_env (Some ''Bearer tok-ada'') ''{'' server1 =
             Done (Inr (Http 400 (Html ExpressError), [], server1))"
    using t example_parse(8) by simp
  have c: "body_error_code (Http 400 (error_body ''Unknown tool'')) \<noteq> Some (- 32700) \<and>
           (\<forall>f \<in> set [(2::nat, ''message'',
                          jsonrpc_error (num 2) (- 32601) ''Unknown tool: delete_channel'')].
              error_code (snd (snd f)) \<noteq> Some (- 32700))"
    using t s by blast
  show ?thesis
    using a b c by (simp add: parse_error_response_def jsonrpc_error_def)
qed

subsection \<open>The session map\<close>

lemma sweep_filter:
  "sweep now sessions = filter (\<lambda>(k, v). \<not> now - timestamp v > 10 * 60 * 1000) sessions"
  by (induction now sessions rule: sweep.induct) auto

lemma map_of_filter_distinct:
  "distinct (map fst xs) \<Longrightarrow> map_of xs k = Some v \<Longrightarrow>
     map_of (filter P xs) k = (if P (k, v) then Some v else None)"
proof (induction xs)
  case Nil
  then show ?case by simp
next
  case (Cons x xs)
  obtain k' v' where x: "x = (k', v')" by (cases x)
  show ?case
  proof (cases "k' = k")
    case True
    then have "v' = v" using Cons.prems x by simp
    moreover have "k \<notin> fst ` set (filter P xs)" using Cons.prems(1) x True by auto
    then have "map_of (filter P xs) k = None" by (simp add: map_of_eq_None_iff)
    ultimately show ?thesis using x True by simp
  next
    case False
    then show ?thesis using Cons x by simp
  qed
qed

lemma map_of_sweep:
  assumes "distinct (map fst sessions)" and "map_of sessions k = Some v"
  shows "map_of (sweep now sessions) k = (if now - timestamp v > 10 * 60 * 1000 then None else Some v)"
  using map_of_filter_distinct[OF assms, of "\<lambda>(k, v). \<not> now - timestamp v > 10 * 60 * 1000"]
  by (simp add: sweep_filter)

lemma keys_sweep: "fst ` set (sweep now sessions) \<subseteq> fst ` set sessions"
  by (auto simp: sweep_filter)

lemma distinct_sweep: "distinct (map fst sessions) \<Longrightarrow> distinct (map fst (sweep now sessions))"
  by (simp add: sweep_filter distinct_map_filter)

lemma expire_connections_filter:
  "expire_connections now conns = filter (\<lambda>(k, c). \<not> now - connectedAt c > 3600000) conns"
  by (induction now conns rule: expire_connections.induct) auto

text \<open>The results of the two MCP routes leave the session map alone.\<close>

lemma sse_post_mcp_state:
  assumes "snd (run world (sse_post_mcp eng env authHeader msg srv)) = Inr (res, frames, srv')"
  shows "srv' = srv"
proof (cases "msg = JNull")
  case True
  then show ?thesis using assms by (simp add: sse_post_mcp_def)
next
  case msg: False
  show ?thesis
  proof (cases "bearer_form authHeader")
    case False
    then have "falsy (extractToken authHeader)" by (simp add: falsy_extractToken)
    then show ?thesis using assms no_token_responses(3)[OF _ msg, of authHeader eng env srv] by simp
  next
    case True
    obtain v where v: "snd (run world (verifyDuoToken eng env (the (extractToken authHeader)))) = Inr v"
      using verifyDuoToken_never_throws by blast
    show ?thesis
      using assms run_sse_post_mcp_verified[OF msg True v, of srv]
      by (auto split: verification.splits option.splits prod.splits sum.splits)
  qed
qed

lemma sse_get_mcp_sessions:
  assumes "snd (run world (sse_get_mcp eng env now authHeader srv)) = Inr (res, frames, srv')"
  shows "authSessions srv' = authSessions srv"
  using assms
  by (auto simp: sse_get_mcp_def Let_def run_await_then split: if_splits sum.splits verification.splits)

lemma auth_callback_keys:
  "map fst (authSessions (snd (snd (run world (auth_callback eng env now code state srv))))) =
     map fst (authSessions srv)"
proof -
  have u: "map_of xs k = Some v \<Longrightarrow> map fst (AList.update k v' xs) = map fst xs"
    for xs :: "(string \<times> session) list" and k v v'
    by (induction xs) auto
  show ?thesis
    by (auto simp: auth_callback_def Let_def coercible_Some u
          split: option.splits response.splits sum.splits)
qed

lemma step_keys:
  "fst ` set (authSessions (step eng env srv we)) \<subseteq> fst ` set (authSessions srv) \<union> set (issued_by we)"
proof -
  obtain world e where we: "we = (world, e)" by (cases we)
  show ?thesis
  proof (cases e)
    case (Initiate now sb vb)
    show ?thesis
    proof (cases "falsy (DUO_API_HOSTNAME env) \<or> falsy (DUO_CLIENT_ID env)")
      case True
      then show ?thesis using we Initiate by (auto simp: auth_duo_initiate_def)
    next
      case False
      define new where "new = \<lparr>codeVerifier = base64url vb, timestamp = now, authenticated = False,
                             accessToken = None, refreshToken = None, expiresAt = None\<rparr>"
      have s: "authSessions (step eng env srv we) =
                 sweep now (AList.update (hex sb) new (authSessions srv))"
        using we Initiate False by (simp add: auth_duo_initiate_def Let_def new_def)
      have "fst ` set (sweep now (AList.update (hex sb) new (authSessions srv)))
              \<subseteq> fst ` set (AList.update (hex sb) new (authSessions srv))"
        by (rule keys_sweep)
      also have "\<dots> = {hex sb} \<union> fst ` set (authSessions srv)"
        by (rule dom_update)
      finally show ?thesis using s we Initiate by auto
    qed
  next
    case (Callback now code state)
    have "fst ` set (authSessions (step eng env srv we)) = set (map fst (authSessions srv))"
      using we Callback auth_callback_keys[of world eng env now code state srv]
      by (metis list.set_map step.simps(2))
    then show ?thesis by auto
  next
    case (McpGet now h)
    then show ?thesis
      using we sse_get_mcp_sessions[of world eng env now h srv]
      by (auto split: sum.splits)
  next
    case (McpPost h msg)
    then show ?thesis
      using we sse_post_mcp_state[of world eng env h msg srv]
      by (auto split: sum.splits)
  qed (use we in \<open>auto simp: sse_close_def sse_cleanup_def\<close>)
qed

lemma serve_snoc: "serve eng env (events @ [we]) = step eng env (serve eng env events) we"
  by (simp add: serve_def)

lemma serve_keys: "fst ` set (authSessions (serve eng env events)) \<subseteq> set (issued events)"
proof (induction events rule: rev_induct)
  case Nil
  then show ?case by (simp add: serve_def server0_def)
next
  case (snoc we events)
  have "set (issued (events @ [we])) = set (issued events) \<union> set (issued_by we)"
    by (simp add: issued_def)
  then show ?case
    using snoc step_keys[of eng env "serve eng env events" we]
    unfolding serve_snoc by blast
qed

lemma step_distinct:
  assumes "distinct (map fst (authSessions srv))"
  shows "distinct (map fst (authSessions (step eng env srv we)))"
proof -
  obtain world e where we: "we = (world, e)" by (cases we)
  show ?thesis
  proof (cases e)
    case (Initiate now sb vb)
    then show ?thesis
      using we assms
      by (auto simp: auth_duo_initiate_def Let_def distinct_sweep distinct_update)
  next
    case (Callback now code state)
    then show ?thesis
      using we assms auth_callback_keys[of world eng env now code state srv] by simp
  next
    case (McpGet now h)
    then show ?thesis
      using we assms sse_get_mcp_sessions[of world eng env now h srv]
      by (auto split: sum.splits)
  next
    case (McpPost h msg)
    then show ?thesis
      using we assms sse_post_mcp_state[of world eng env h msg srv]
      by (auto split: sum.splits)
  qed (use we assms in \<open>auto simp: sse_close_def sse_cleanup_def\<close>)
qed

lemma serve_distinct: "distinct (map fst (authSessions (serve eng env events)))"
proof (induction events rule: rev_induct)
  case Nil
  then show ?case by (simp add: serve_def server0_def)
next
  case (snoc we events)
  then show ?case by (simp add: serve_snoc step_distinct)
qed

lemma example_served:
  "authSessions (serve example_engine example_env example_events) =
     [(''01'', \<lparr>codeVerifier = ''TQ'', timestamp = 0, authenticated = False,
               accessToken = None, refreshToken = None, expiresAt = None\<rparr>),
      (''02'', \<lparr>codeVerifier = ''TWE'', timestamp = 600000, authenticated = False,
               accessToken = None, refreshToken = None, expiresAt = None\<rparr>)]"
  by (simp add: serve_def example_events_def server0_def auth_duo_initiate_def example_env_def
        hex_def hex_digit_def b64_def base64url_alphabet_def Let_def)

lemma initiate_sessions:
  assumes "\<not> falsy (DUO_API_HOSTNAME env)" and "\<not> falsy (DUO_CLIENT_ID env)"
  shows "authSessions (snd (auth_duo_initiate eng env now stateBytes verifierBytes srv)) =
           sweep now (AList.update (hex stateBytes)
             \<lparr>codeVerifier = base64url verifierBytes, timestamp = now, authenticated = False,
              accessToken = None, refreshToken = None, expiresAt = None\<rparr>
             (authSessions srv))"
  using assms by (simp add: auth_duo_initiate_def Let_def)

text \<open>
  Claim C5. The sweep runs inside every configured initiation, after the new session is
  stored. In any state the server has reached, a session under another key than the new
  one is absent afterwards when it was created more than ten minutes (600000 ms) before
  the initiation, and is still there, unchanged, when it was created ten minutes before or
  less, so in particular one minute before.
\<close>

theorem sweep_at_initiation:
  assumes "\<not> falsy (DUO_API_HOSTNAME env)" and "\<not> falsy (DUO_CLIENT_ID env)"
    and "map_of (authSessions (serve eng env events)) k = Some v" and "k \<noteq> hex stateBytes"
  shows "(now - timestamp v > 10 * 60 * 1000 \<longrightarrow>
            map_of (authSessions
              (snd (auth_duo_initiate eng env now stateBytes verifierBytes (serve eng env events)))) k
              = None) \<and>
         (now - timestamp v \<le> 10 * 60 * 1000 \<longrightarrow>
            map_of (authSessions
              (snd (auth_duo_initiate eng env now stateBytes verifierBytes (serve eng env events)))) k
              = Some v)"
proof -
  define new where "new = \<lparr>codeVerifier = base64url verifierBytes, timestamp = now,
      authenticated = False, accessToken = None, refreshToken = None, expiresAt = None\<rparr>"
  let ?stored = "AList.update (hex stateBytes) new (authSessions (serve eng env events))"
  have d: "distinct (map fst ?stored)"
    by (simp add: distinct_update serve_distinct)
  have m: "map_of ?stored k = Some v"
    using assms(3,4) by (simp add: update_conv')
  show ?thesis
    using map_of_sweep[OF d m, of now] initiate_sessions[OF assms(1,2), of eng now stateBytes
        verifierBytes "serve eng env events"]
    by (simp add: new_def)
qed

theorem sweep_at_initiation_witness:
  "map_of (authSessions (serve example_engine example_env example_events)) ''01'' =
     Some \<lparr>codeVerifier = ''TQ'', timestamp = 0, authenticated = False,
           accessToken = None, refreshToken = None, expiresAt = None\<rparr> \<and>
   map_of (authSessions
     (snd (auth_duo_initiate example_engine example_env 660000 [0x03] [0x4D, 0x61, 0x6E]
            (serve example_engine example_env example_events)))) ''01'' = None \<and>
   map_of (authSessions
     (snd (auth_duo_initiate example_engine example_env 660000 [0x03] [0x4D, 0x61, 0x6E]
            (serve example_engine example_env example_events)))) ''02'' =
     Some \<lparr>codeVerifier = ''TWE'', timestamp = 600000, authenticated = False,
           accessToken = None, refreshToken = None, expiresAt = None\<rparr>"
proof -
  have c: "\<not> falsy (DUO_API_HOSTNAME example_env)" "\<not> falsy (DUO_CLIENT_ID example_env)"
    by (simp_all add: example_env_def)
  have h: "hex [0x03] = ''03''"
    by (simp add: hex_def hex_digit_def)
  have a: "map_of (authSessions (serve example_engine example_env example_events)) ''01'' =
     Some \<lparr>codeVerifier = ''TQ'', timestamp = 0, authenticated = False,
           accessToken = None, refreshToken = None, expiresAt = None\<rparr>"
    by (simp add: example_served)
  have b: "map_of (authSessions (serve example_engine example_env example_events)) ''02'' =
     Some \<lparr>codeVerifier = ''TWE'', timestamp = 600000, authenticated = False,
           accessToken = None, refreshToken = None, expiresAt = None\<rparr>"
    by (simp add: example_served)
  have n: "''01'' \<noteq> hex [0x03]" "''02'' \<noteq> hex [0x03]"
    by (simp_all add: h)
  show ?thesis
    using a sweep_at_initiation[OF c a n(1), of 660000 "[0x4D, 0x61, 0x6E]"]
      sweep_at_initiation[OF c b n(2), of 660000 "[0x4D, 0x61, 0x6E]"]
    by simp
qed

subsection \<open>The encodings\<close>

lemma byte_bound: "unat (a :: 8 word) < 256"
  using unsigned_less[of a, where 'a = nat] by simp

lemma b64_not_pad: "i < 64 \<Longrightarrow> CHR ''='' \<noteq> b64 i"
proof -
  have "CHR ''='' \<notin> set base64url_alphabet"
    by (simp add: base64url_alphabet_def)
  moreover have "length base64url_alphabet = 64"
    by (simp add: base64url_alphabet_def)
  ultimately show "i < 64 \<Longrightarrow> CHR ''='' \<noteq> b64 i"
    unfolding b64_def by (metis nth_mem)
qed

text \<open>The base64url text has no padding character.\<close>

lemma base64url_unpadded: "CHR ''='' \<notin> set (base64url bs)"
proof (induction bs rule: base64url.induct)
  case (1 a b c bs)
  have n: "unat a * 65536 + unat b * 256 + unat c < 16777216"
    using byte_bound[of a] byte_bound[of b] byte_bound[of c] by simp
  then have "(unat a * 65536 + unat b * 256 + unat c) div 262144 < 64" by simp
  then show ?case using 1 by (simp add: Let_def b64_not_pad)
next
  case (2 a b)
  have "unat a * 1024 + unat b * 4 < 262144"
    using byte_bound[of a] byte_bound[of b] by simp
  then have "(unat a * 1024 + unat b * 4) div 4096 < 64" by simp
  then show ?case by (simp add: Let_def b64_not_pad)
next
  case (3 a)
  have "unat a * 16 < 4096" using byte_bound[of a] by simp
  then have "unat a * 16 div 64 < 64" by simp
  then show ?case by (simp add: Let_def b64_not_pad)
next
  case 4
  then show ?case by simp
qed

subsection \<open>The authorization-code flow\<close>

lemma map_of_sweep_fresh:
  "map_of sessions k = Some v \<Longrightarrow> \<not> now - timestamp v > 10 * 60 * 1000 \<Longrightarrow>
     map_of (sweep now sessions) k = Some v"
  by (induction now sessions rule: sweep.induct) (auto split: if_splits)

lemma initiate_response:
  assumes "\<not> falsy (DUO_API_HOSTNAME env)" and "\<not> falsy (DUO_CLIENT_ID env)"
  shows "fst (auth_duo_initiate eng env now stateBytes verifierBytes srv) =
           Http 200 (Json (object
             [(''authUrl'', str (authorize_url env (hex stateBytes)
                                  (base64url (sha256 eng (base64url verifierBytes))))),
              (''state'', str (hex stateBytes))]))"
  using assms by (simp add: auth_duo_initiate_def Let_def)

lemma initiate_new_session:
  assumes "\<not> falsy (DUO_API_HOSTNAME env)" and "\<not> falsy (DUO_CLIENT_ID env)"
  shows "map_of (authSessions (snd (auth_duo_initiate eng env now stateBytes verifierBytes srv)))
           (hex stateBytes) =
         Some \<lparr>codeVerifier = base64url verifierBytes, timestamp = now, authenticated = False,
               accessToken = None, refreshToken = None, expiresAt = None\<rparr>"
  unfolding initiate_sessions[OF assms]
  by (rule map_of_sweep_fresh) (simp_all add: update_conv')

lemma callback_missing_parameter:
  "falsy code \<or> falsy state \<Longrightarrow>
     auth_callback eng env now code state srv =
       Done (Http 400 (Text ''Missing code or state parameter''), srv)"
  by (simp add: auth_callback_def)

lemma callback_no_session:
  "\<not> falsy code \<Longrightarrow> \<not> falsy state \<Longrightarrow> map_of (authSessions srv) (the state) = None \<Longrightarrow>
     auth_callback eng env now code state srv =
       Done (Http 400 (Text ''Invalid or expired session''), srv)"
  by (simp add: auth_callback_def)

lemma not_issued_no_session:
  "s \<notin> set (issued events) \<Longrightarrow> map_of (authSessions (serve eng env events)) s = None"
  using serve_keys[of eng env events] by (auto simp: map_of_eq_None_iff)

text \<open>
  Claim C1 fails as stated: a callback that carries a \<^verbatim>\<open>state\<close> no initiation has produced
  but no \<^verbatim>\<open>code\<close> is turned down by the first guard of the handler, with the text
  \<^verbatim>\<open>Missing code or state parameter\<close>, not with the session-not-found answer.
\<close>

theorem callback_without_code_counterexample:
  "''5ca1ab1e'' \<notin> set (issued []) \<and>
   serve example_engine example_env [] = server0 \<and>
   map_of (authSessions server0) ''5ca1ab1e'' = None \<and>
   auth_callback example_engine example_env 0 None (Some ''5ca1ab1e'') server0 =
     Done (Http 400 (Text ''Missing code or state parameter''), server0) \<and>
   Http 400 (Text ''Missing code or state parameter'') \<noteq> Http 400 (Text ''Invalid or expired session'')"
  by (simp add: auth_callback_def issued_def serve_def server0_def)

text \<open>
  Claim C1, amended. A configured initiation answers with the \<^verbatim>\<open>state\<close> and an
  authorization URL whose \<^verbatim>\<open>code_challenge\<close> is the unpadded base64url text of the
  SHA-256 digest of the code verifier of the session stored under that \<^verbatim>\<open>state\<close>, and
  that session has \<^verbatim>\<open>authenticated\<close> false. A callback that lacks \<^verbatim>\<open>code\<close> or
  \<^verbatim>\<open>state\<close> fails with status 400 and the text \<^verbatim>\<open>Missing code or state parameter\<close>. A
  callback with both whose \<^verbatim>\<open>state\<close> has no session in the map, as is the case for every
  \<^verbatim>\<open>state\<close> that no initiation among the requests served so far has produced, fails with
  status 400 and the text \<^verbatim>\<open>Invalid or expired session\<close>. In both failures the handler
  is done at once, without the request to the token endpoint, and the state is unchanged.
\<close>

theorem pkce_challenge_and_unknown_state:
  "(\<not> falsy (DUO_API_HOSTNAME env) \<and> \<not> falsy (DUO_CLIENT_ID env) \<longrightarrow>
      (\<exists>session authUrl prefix.
         auth_duo_initiate eng env now stateBytes verifierBytes srv =
           (Http 200 (Json (object [(''authUrl'', str authUrl), (''state'', str (hex stateBytes))])),
            snd (auth_duo_initiate eng env now stateBytes verifierBytes srv)) \<and>
         map_of (authSessions (snd (auth_duo_initiate eng env now stateBytes verifierBytes srv)))
           (hex stateBytes) = Some session \<and>
         \<not> authenticated session \<and>
         authUrl = prefix @ ''code_challenge='' @ base64url (sha256 eng (codeVerifier session))
                   @ ''&code_challenge_method=S256&scope=openid'' \<and>
         CHR ''='' \<notin> set (base64url (sha256 eng (codeVerifier session))))) \<and>
   (falsy code \<or> falsy state \<longrightarrow>
      auth_callback eng env now' code state srv =
        Done (Http 400 (Text ''Missing code or state parameter''), srv)) \<and>
   (\<not> falsy code \<and> \<not> falsy state \<and> map_of (authSessions srv) (the state) = None \<longrightarrow>
      auth_callback eng env now' code state srv =
        Done (Http 400 (Text ''Invalid or expired session''), srv)) \<and>
   (\<not> falsy code \<and> \<not> falsy state \<and> the state \<notin> set (issued events) \<longrightarrow>
      auth_callback eng env now' code state (serve eng env events) =
        Done (Http 400 (Text ''Invalid or expired session''), serve eng env events))"
proof (intro conjI impI)
  assume c: "\<not> falsy (DUO_API_HOSTNAME env) \<and> \<not> falsy (DUO_CLIENT_ID env)"
  let ?r = "auth_duo_initiate eng env now stateBytes verifierBytes srv"
  let ?session = "\<lparr>codeVerifier = base64url verifierBytes, timestamp = now, authenticated = False,
               accessToken = None, refreshToken = None, expiresAt = None\<rparr>"
  let ?challenge = "base64url (sha256 eng (base64url verifierBytes))"
  have 1: "?r = (Http 200 (Json (object
             [(''authUrl'', str (authorize_url env (hex stateBytes) ?challenge)),
              (''state'', str (hex stateBytes))])), snd ?r)"
    using initiate_response[of env eng now stateBytes verifierBytes srv] c
    by (simp add: prod_eq_iff)
  have 2: "map_of (authSessions (snd ?r)) (hex stateBytes) = Some ?session"
    using initiate_new_session c by blast
  have 3: "authorize_url env (hex stateBytes) ?challenge =
             (''https://'' @ env_template (DUO_API_HOSTNAME env) @ ''/oauth/v1/authorize?''
              @ ''response_type=code&''
              @ ''client_id='' @ encodeURIComponent (env_template (DUO_CLIENT_ID env)) @ ''&''
              @ ''redirect_uri='' @ encodeURIComponent (DUO_REDIRECT_URI env) @ ''&''
              @ ''state='' @ hex stateBytes @ ''&'')
             @ ''code_challenge='' @ ?challenge @ ''&code_challenge_method=S256&scope=openid''"
    by (simp add: authorize_url_def)
  have 4: "CHR ''='' \<notin> set ?challenge"
    by (rule base64url_unpadded)
  show "\<exists>session authUrl prefix.
         ?r = (Http 200 (Json (object [(''authUrl'', str authUrl), (''state'', str (hex stateBytes))])),
            snd ?r) \<and>
         map_of (authSessions (snd ?r)) (hex stateBytes) = Some session \<and>
         \<not> authenticated session \<and>
         authUrl = prefix @ ''code_challenge='' @ base64url (sha256 eng (codeVerifier session))
                   @ ''&code_challenge_method=S256&scope=openid'' \<and>
         CHR ''='' \<notin> set (base64url (sha256 eng (codeVerifier session)))"
    apply (rule exI[of _ ?session])
    apply (rule exI[of _ "authorize_url env (hex stateBytes) ?challenge"])
    apply (rule exI)
    using 1 2 3 4 apply simp
    done
next
  assume "falsy code \<or> falsy state"
  then show "auth_callback eng env now' code state srv =
        Done (Http 400 (Text ''Missing code or state parameter''), srv)"
    by (rule callback_missing_parameter)
next
  assume "\<not> falsy code \<and> \<not> falsy state \<and> map_of (authSessions srv) (the state) = None"
  then show "auth_callback eng env now' code state srv =
        Done (Http 400 (Text ''Invalid or expired session''), srv)"
    by (simp add: callback_no_session)
next
  assume "\<not> falsy code \<and> \<not> falsy state \<and> the state \<notin> set (issued events)"
  then show "auth_callback eng env now' code state (serve eng env events) =
        Done (Http 400 (Text ''Invalid or expired session''), serve eng env events)"
    by (simp add: callback_no_session not_issued_no_session)
qed

theorem pkce_challenge_and_unknown_state_witness:
  "(\<exists>session authUrl prefix.
      auth_duo_initiate example_engine example_env 660000 [0x03] [0x4D, 0x61, 0x6E] server0 =
        (Http 200 (Json (object [(''authUrl'', str authUrl), (''state'', str (hex [0x03]))])),
         snd (auth_duo_initiate example_engine example_env 660000 [0x03] [0x4D, 0x61, 0x6E] server0)) \<and>
      map_of (authSessions
        (snd (auth_duo_initiate example_engine example_env 660000 [0x03] [0x4D, 0x61, 0x6E] server0)))
        (hex [0x03]) = Some session \<and>
      \<not> authenticated session \<and>
      authUrl = prefix @ ''code_challenge='' @ base64url (sha256 example_engine (codeVerifier session))
                @ ''&code_challenge_method=S256&scope=openid'' \<and>
      CHR ''='' \<notin> set (base64url (sha256 example_engine (codeVerifier session)))) \<and>
   auth_callback example_engine example_env 700000 None (Some ''0f'') server0 =
     Done (Http 400 (Text ''Missing code or state parameter''), server0) \<and>
   auth_callback example_engine example_env 700000 (Some ''code-1'') (Some ''0f'')
       (serve example_engine example_env example_events) =
     Done (Http 400 (Text ''Invalid or expired session''), serve example_engine example_env example_events)"
proof -
  have c: "\<not> falsy (DUO_API_HOSTNAME example_env) \<and> \<not> falsy (DUO_CLIENT_ID example_env)"
    by (simp add: example_env_def)
  have i: "the (Some ''0f'') \<notin> set (issued example_events)"
    by (simp add: issued_def example_events_def hex_def hex_digit_def)
  note t1 = pkce_challenge_and_unknown_state[of example_env example_engine 660000 "[0x03]"
      "[0x4D, 0x61, 0x6E]" server0 None "Some ''0f''" 700000 example_events]
  note t2 = pkce_challenge_and_unknown_state[of example_env example_engine 660000 "[0x03]"
      "[0x4D, 0x61, 0x6E]" server0 "Some ''code-1''" "Some ''0f''" 700000 example_events]
  have a: "\<exists>session authUrl prefix.
      auth_duo_initiate example_engine example_env 660000 [0x03] [0x4D, 0x61, 0x6E] server0 =
        (Http 200 (Json (object [(''authUrl'', str authUrl), (''state'', str (hex [0x03]))])),
         snd (auth_duo_initiate example_engine example_env 660000 [0x03] [0x4D, 0x61, 0x6E] server0)) \<and>
      map_of (authSessions
        (snd (auth_duo_initiate example_engine example_env 660000 [0x03] [0x4D, 0x61, 0x6E] server0)))
        (hex [0x03]) = Some session \<and>
      \<not> authenticated session \<and>
      authUrl = prefix @ ''code_challenge='' @ base64url (sha256 example_engine (codeVerifier session))
                @ ''&code_challenge_method=S256&scope=openid'' \<and>
      CHR ''='' \<notin> set (base64url (sha256 example_engine (codeVerifier session)))"
    using t1 c by blast
  have b: "auth_callback example_engine example_env 700000 None (Some ''0f'') server0 =
     Done (Http 400 (Text ''Missing code or state parameter''), server0)"
    using t1 by simp
  have d: "auth_callback example_engine example_env 700000 (Some ''code-1'') (Some ''0f'')
       (serve example_engine example_env example_events) =
     Done (Http 400 (Text ''Invalid or expired session''), serve example_engine example_env example_events)"
    using t2 i by simp
  show ?thesis using a b d by blast
qed

text \<open>The initiation of the example, evaluated.\<close>

lemma initiate_example:
  "auth_duo_initiate example_engine example_env 660000 [0x03] [0x4D, 0x61, 0x6E] server0 =
     (Http 200 (Json (JObj
        [(''authUrl'', JStr (''https://duo.example.org/oauth/v1/authorize?response_type=code''
            @ ''&client_id=client''
            @ ''&redirect_uri=https%3A%2F%2Fmcp.example.org%2Fauth%2Fcallback''
            @ ''&state=03&code_challenge=VFdGdQ&code_challenge_method=S256&scope=openid'')),
         (''state'', JStr ''03'')])),
      \<lparr>sseConnections = [], connectionIdCounter = 0,
       authSessions =
         [(''03'', \<lparr>codeVerifier = ''TWFu'', timestamp = 660000, authenticated = False,
                   accessToken = None, refreshToken = None, expiresAt = None\<rparr>)]\<rparr>)"
  by (simp add: auth_duo_initiate_def example_env_def example_engine_def server0_def Let_def
        hex_def hex_digit_def b64_def base64url_alphabet_def authorize_url_def
        encodeURIComponent_def uri_unreserved_def HEX_digit_def)

subsection \<open>The code exchange and the status\<close>










subsection \<open>Further behaviour of the handlers\<close>

text \<open>On the plain HTTP server the body parser takes a body that is not JSON before the
  route; the \<open>-32700\<close> response of the route's \<^verbatim>\<open>catch\<close> is what a parsed request gets
  when the dispatch throws, as for a \<^verbatim>\<open>tools/call\<close> without \<^verbatim>\<open>params\<close>.\<close>

lemma http_malformed_body:
  "JSON_parse eng raw = None \<Longrightarrow> raw \<noteq> [] \<Longrightarrow>
     http_request_mcp eng bot_token raw = Done (Http 400 (Html ExpressError))"
  by (simp add: http_request_mcp_def express_json_def)

lemma http_call_without_params:
  assumes "field request ''method'' = str ''tools/call''" and "field request ''params'' = None"
  shows "http_post_mcp eng bot_token request = Done (Http 500 (Json parse_error_response))"
  using assms method_not_JNull[OF assms(1)]
  by (simp add: http_post_mcp_def http_dispatch_def get_Some is_str_def)

text \<open>A token response \<^verbatim>\<open>null\<close> with status 2xx: the handler has set
  \<^verbatim>\<open>authenticated\<close> before reading the tokens throws, so the session is left
  authenticated without a token and the answer is the failure page.\<close>

lemma callback_null_body:
  assumes "\<not> falsy code" and "\<not> falsy state"
    and "map_of (authSessions srv) (the state) = Some session"
    and "world (token_exchange env (the code) session) = Answered st body" and "ok st"
    and "JSON_parse eng body = Some JNull"
  shows "snd (run world (auth_callback eng env now code state srv)) =
           (Http 500 (Html (AuthenticationFailed (TypeError_message eng))),
            srv\<lparr>authSessions :=
                  AList.update (the state) (session\<lparr>authenticated := True\<rparr>) (authSessions srv)\<rparr>)"
  using assms by (simp add: auth_callback_def json_of_def authentication_failed_def)

end
